theory Spec2Isabelle
  imports Complex_Main "HOL-Library.Sublist"
begin

section \<open>Expression translator\<close>

text \<open>
  Python's \<^verbatim>\<open>str.replace(old, new)\<close>: the occurrences of \<open>old\<close> are found from left to
  right, each match is replaced and the scan resumes after it, so matches never overlap.
  With an empty \<open>old\<close>, Python puts \<open>new\<close> before every character and at the end.
\<close>

function replace_from :: "'a list \<Rightarrow> 'a list \<Rightarrow> 'a list \<Rightarrow> 'a list" where
  "replace_from old new [] = []"
| "replace_from old new (c # cs) =
     (if old \<noteq> [] \<and> prefix old (c # cs)
      then new @ replace_from old new (drop (length old - 1) cs)
      else c # replace_from old new cs)"
  by pat_completeness auto
termination
  by (relation "measure (\<lambda>(old, new, s). length s)") auto

definition str_replace :: "'a list \<Rightarrow> 'a list \<Rightarrow> 'a list \<Rightarrow> 'a list" where
  "str_replace s old new =
     (if old = [] then new @ concat (map (\<lambda>c. c # new) s) else replace_from old new s)"

text \<open>
  \<^verbatim>\<open>ti84_to_numpy\<close> (lines 11 to 18): seven chained calls of \<^verbatim>\<open>replace\<close>, each on the
  result of the one before.
\<close>

definition ti84_to_numpy :: "string \<Rightarrow> string" where
  "ti84_to_numpy expr =
     str_replace
       (str_replace
         (str_replace
           (str_replace
             (str_replace
               (str_replace
                 (str_replace expr ''^'' ''**'')
                 ''sin'' ''np.sin'')
               ''cos'' ''np.cos'')
             ''tan'' ''np.tan'')
           ''log'' ''np.log10'')
         ''ln'' ''np.log'')
       ''sqrt'' ''np.sqrt''"

text \<open>
  The translator as the specification words it: an ordered table of seven substitutions,
  each applied once, globally, to the whole string produced so far.
\<close>

definition substitution_table :: "(string \<times> string) list" where
  "substitution_table =
     [(''^'', ''**''), (''sin'', ''np.sin''), (''cos'', ''np.cos''), (''tan'', ''np.tan''),
      (''log'', ''np.log10''), (''ln'', ''np.log''), (''sqrt'', ''np.sqrt'')]"

definition translate_spec :: "string \<Rightarrow> string" where
  "translate_spec raw = foldl (\<lambda>s (old, new). str_replace s old new) raw substitution_table"

text \<open>
  The vocabulary of raw expressions: the six function names, the power operator, the two
  variables, the digits, parentheses and arithmetic operators, and also the decimal point
  and the blank. A raw expression over the vocabulary is the concatenation of a list of
  these tokens.
\<close>

definition vocabulary :: "string list" where
  "vocabulary =
     [''sin'', ''cos'', ''tan'', ''log'', ''ln'', ''sqrt'']
     @ map (\<lambda>c. [c]) ''^xy0123456789()+-*/. ''"

definition function_names :: "string list" where
  "function_names = [''sin'', ''cos'', ''tan'', ''log'', ''ln'', ''sqrt'']"

text \<open>
  The occurrences of a function name in \<open>s\<close> that are not directly preceded by the
  namespace prefix \<^verbatim>\<open>np.\<close>, as pairs of the name and the index where it starts.
\<close>

definition bare_occurrences :: "string \<Rightarrow> (string \<times> nat) list" where
  "bare_occurrences s =
     concat (map (\<lambda>nm. map (Pair nm)
        (filter (\<lambda>i. take (length nm) (drop i s) = nm
                     \<and> \<not> (3 \<le> i \<and> take 3 (drop (i - 3) s) = ''np.''))
                [0..<length s])) function_names)"

text \<open>Auxiliary notions for reasoning about replacement on token lists.\<close>

definition subst_token :: "'a list \<Rightarrow> 'a list \<Rightarrow> 'a list \<Rightarrow> 'a list" where
  "subst_token old new t = (if t = old then new else t)"

text \<open>
  A pattern \<open>p\<close> is safe for a token set when it can only match a whole token: inside
  any other token no suffix starts with \<open>p\<close>, and where a suffix is a proper beginning
  of \<open>p\<close>, no token starts with the character \<open>p\<close> needs next.
\<close>

definition token_safe :: "'a list \<Rightarrow> 'a list list \<Rightarrow> bool" where
  "token_safe p T =
     (p \<noteq> [] \<and>
      list_all (\<lambda>t. t \<noteq> [] \<and>
         (t = p \<or> list_all (\<lambda>u. u = [] \<or> (\<not> prefix p u \<and>
              (prefix u p \<longrightarrow> list_all (\<lambda>t'. hd t' \<noteq> p ! length u) T))) (suffixes t))) T)"

definition tokens1 :: "string list" where
  "tokens1 = map (subst_token ''^'' ''**'') vocabulary"
definition tokens2 :: "string list" where
  "tokens2 = map (subst_token ''sin'' ''np.sin'') tokens1"
definition tokens3 :: "string list" where
  "tokens3 = map (subst_token ''cos'' ''np.cos'') tokens2"
definition tokens4 :: "string list" where
  "tokens4 = map (subst_token ''tan'' ''np.tan'') tokens3"
definition tokens5 :: "string list" where
  "tokens5 = map (subst_token ''log'' ''np.log10'') tokens4"
definition tokens6 :: "string list" where
  "tokens6 = map (subst_token ''ln'' ''np.log'') tokens5"
definition tokens7 :: "string list" where
  "tokens7 = map (subst_token ''sqrt'' ''np.sqrt'') tokens6"

text \<open>
  Every occurrence of the character \<open>c\<close> in \<open>s\<close> has the prefix \<^verbatim>\<open>np.\<close> starting
  \<open>k\<close> places before it.
\<close>

definition anchored :: "char \<Rightarrow> nat \<Rightarrow> string \<Rightarrow> bool" where
  "anchored c k s =
     list_all (\<lambda>j. s ! j = c \<longrightarrow> k \<le> j \<and> take 3 (drop (j - k) s) = ''np.'') [0..<length s]"

section \<open>Numbers and arrays\<close>

text \<open>
  A float64 value is modelled as a real number or one of the three special values.
  Rounding, overflow of finite results and the sign of zero are not modelled: finite
  arithmetic is exact. The operations follow IEEE 754 as numpy applies it to arrays
  (a division by zero gives an infinity or NaN and a warning, never an exception).
\<close>

datatype fl = Fin real | PInf | NInf | NaN

definition fl_isnan :: "fl \<Rightarrow> bool" where
  "fl_isnan v = (v = NaN)"

definition fl_isfinite :: "fl \<Rightarrow> bool" where
  "fl_isfinite v = (case v of Fin a \<Rightarrow> True | _ \<Rightarrow> False)"

text \<open>The sign of a value that is not NaN, and the infinity of a given sign (NaN for sign 0).\<close>

fun fl_sign :: "fl \<Rightarrow> real" where
  "fl_sign (Fin a) = sgn a"
| "fl_sign PInf = 1"
| "fl_sign NInf = - 1"
| "fl_sign NaN = 0"

definition signed_inf :: "real \<Rightarrow> fl" where
  "signed_inf s = (if s = 0 then NaN else if 0 < s then PInf else NInf)"

fun fl_neg :: "fl \<Rightarrow> fl" where
  "fl_neg (Fin a) = Fin (- a)"
| "fl_neg PInf = NInf"
| "fl_neg NInf = PInf"
| "fl_neg NaN = NaN"

fun fl_add :: "fl \<Rightarrow> fl \<Rightarrow> fl" where
  "fl_add NaN b = NaN"
| "fl_add a NaN = NaN"
| "fl_add (Fin a) (Fin b) = Fin (a + b)"
| "fl_add PInf NInf = NaN"
| "fl_add NInf PInf = NaN"
| "fl_add PInf b = PInf"
| "fl_add NInf b = NInf"
| "fl_add a PInf = PInf"
| "fl_add a NInf = NInf"

definition fl_sub :: "fl \<Rightarrow> fl \<Rightarrow> fl" where
  "fl_sub a b = fl_add a (fl_neg b)"

fun fl_mul :: "fl \<Rightarrow> fl \<Rightarrow> fl" where
  "fl_mul NaN b = NaN"
| "fl_mul a NaN = NaN"
| "fl_mul (Fin a) (Fin b) = Fin (a * b)"
| "fl_mul a b = signed_inf (fl_sign a * fl_sign b)"

fun fl_div :: "fl \<Rightarrow> fl \<Rightarrow> fl" where
  "fl_div NaN b = NaN"
| "fl_div a NaN = NaN"
| "fl_div (Fin a) (Fin b) = (if b = 0 then signed_inf (sgn a) else Fin (a / b))"
| "fl_div (Fin a) b = Fin 0"
| "fl_div a (Fin b) = signed_inf (fl_sign a * (if b < 0 then - 1 else 1))"
| "fl_div a b = NaN"

fun fl_sqrt :: "fl \<Rightarrow> fl" where
  "fl_sqrt (Fin a) = (if 0 \<le> a then Fin (sqrt a) else NaN)"
| "fl_sqrt PInf = PInf"
| "fl_sqrt NInf = NaN"
| "fl_sqrt NaN = NaN"

fun fl_abs :: "fl \<Rightarrow> fl" where
  "fl_abs (Fin a) = Fin \<bar>a\<bar>"
| "fl_abs PInf = PInf"
| "fl_abs NInf = PInf"
| "fl_abs NaN = NaN"

fun fl_cos :: "fl \<Rightarrow> fl" where
  "fl_cos (Fin a) = Fin (cos a)"
| "fl_cos a = NaN"

fun fl_sin :: "fl \<Rightarrow> fl" where
  "fl_sin (Fin a) = Fin (sin a)"
| "fl_sin a = NaN"

text \<open>\<^verbatim>\<open>10 ** v\<close>, the power numpy's \<^verbatim>\<open>logspace\<close> takes.\<close>

fun fl_pow10 :: "fl \<Rightarrow> fl" where
  "fl_pow10 (Fin a) = Fin (10 powr a)"
| "fl_pow10 PInf = PInf"
| "fl_pow10 NInf = Fin 0"
| "fl_pow10 NaN = NaN"

text \<open>The order of float64; every comparison with NaN is false.\<close>

fun fl_le :: "fl \<Rightarrow> fl \<Rightarrow> bool" where
  "fl_le NaN b = False"
| "fl_le a NaN = False"
| "fl_le (Fin a) (Fin b) = (a \<le> b)"
| "fl_le NInf b = True"
| "fl_le a PInf = True"
| "fl_le a b = False"

text \<open>\<^verbatim>\<open>np.minimum\<close> and \<^verbatim>\<open>np.maximum\<close>: NaN if either argument is NaN.\<close>

definition fl_minimum :: "fl \<Rightarrow> fl \<Rightarrow> fl" where
  "fl_minimum a b = (if fl_isnan a \<or> fl_isnan b then NaN else if fl_le a b then a else b)"

definition fl_maximum :: "fl \<Rightarrow> fl \<Rightarrow> fl" where
  "fl_maximum a b = (if fl_isnan a \<or> fl_isnan b then NaN else if fl_le a b then b else a)"

text \<open>\<^verbatim>\<open>np.clip(a, lo, hi)\<close> is \<^verbatim>\<open>minimum(maximum(a, lo), hi)\<close>.\<close>

definition np_clip :: "fl \<Rightarrow> fl \<Rightarrow> fl \<Rightarrow> fl" where
  "np_clip a lo hi = fl_minimum (fl_maximum a lo) hi"

text \<open>
  The exceptions of the model. The two handlers of the program are
  \<^verbatim>\<open>except Exception\<close>: they catch the subclasses of Python's \<^verbatim>\<open>Exception\<close>.
  \<^verbatim>\<open>SystemExit\<close> and \<^verbatim>\<open>KeyboardInterrupt\<close> derive from \<^verbatim>\<open>BaseException\<close> only, so
  no such handler catches them.
\<close>

datatype py_exn = SyntaxError | NameError | TypeError | ValueError | ZeroDivisionError
  | AttributeError | KeyError | SystemExit | KeyboardInterrupt

fun is_exception :: "py_exn \<Rightarrow> bool" where
  "is_exception SystemExit = False"
| "is_exception KeyboardInterrupt = False"
| "is_exception e = True"

text \<open>Sequencing of steps that may raise: the first exception ends the sequence.\<close>

definition and_then :: "py_exn + 'a \<Rightarrow> ('a \<Rightarrow> py_exn + 'b) \<Rightarrow> py_exn + 'b" where
  "and_then m f = (case m of Inl e \<Rightarrow> Inl e | Inr v \<Rightarrow> f v)"

text \<open>
  Auxiliary: a step that raises an exception an \<^verbatim>\<open>except Exception\<close> handler catches,
  and a step that raises nothing such a handler would let through.
\<close>

definition raises_caught :: "py_exn + 'a \<Rightarrow> bool" where
  "raises_caught m = (case m of Inl e \<Rightarrow> is_exception e | Inr v \<Rightarrow> False)"

definition nothing_escapes :: "py_exn + 'a \<Rightarrow> bool" where
  "nothing_escapes m = (case m of Inl e \<Rightarrow> is_exception e | Inr v \<Rightarrow> True)"

text \<open>
  A two-dimensional numpy array: its shape and its entries by row and column (only the
  entries inside the shape matter). One-dimensional arrays are lists.
\<close>

record ndarray =
  nrows :: nat
  ncols :: nat
  entry :: "nat \<Rightarrow> nat \<Rightarrow> fl"

text \<open>
  What \<^verbatim>\<open>eval\<close> may return: a Python number (the value of an expression of literals), a
  numpy scalar (what a numpy function returns for a number; it has the methods of an
  array, and no axis), a two-dimensional array, or some other object.
\<close>

datatype pyval = PyObj | PyNum fl | NpNum fl | NdArray ndarray

definition np_shape :: "pyval \<Rightarrow> nat list" where
  "np_shape v = (case v of NdArray a \<Rightarrow> [nrows a, ncols a] | _ \<Rightarrow> [])"

text \<open>\<^verbatim>\<open>flatten\<close>: the entries in row-major order.\<close>

definition flatten :: "ndarray \<Rightarrow> fl list" where
  "flatten a = concat (map (\<lambda>i. map (entry a i) [0..<ncols a]) [0..<nrows a])"

text \<open>The numbers a value holds: one for a number, the entries in row-major order for an array.\<close>

definition values_of :: "pyval \<Rightarrow> fl list" where
  "values_of v =
     (case v of PyObj \<Rightarrow> [] | PyNum a \<Rightarrow> [a] | NpNum a \<Rightarrow> [a] | NdArray a \<Rightarrow> flatten a)"

definition arr_map :: "(fl \<Rightarrow> fl) \<Rightarrow> ndarray \<Rightarrow> ndarray" where
  "arr_map f a = \<lparr>nrows = nrows a, ncols = ncols a, entry = (\<lambda>i j. f (entry a i j))\<rparr>"

text \<open>
  numpy's broadcasting of two shapes, axis by axis: equal lengths, or one of them 1;
  anything else raises ValueError.
\<close>

definition bc_dim :: "nat \<Rightarrow> nat \<Rightarrow> nat option" where
  "bc_dim m n = (if m = n then Some m else if m = 1 then Some n else if n = 1 then Some m else None)"

text \<open>The entry of \<open>a\<close> that lands at row \<open>i\<close>, column \<open>j\<close> of the broadcast shape \<open>(m, n)\<close>: an axis of length 1 is repeated.\<close>

definition bc_at :: "ndarray \<Rightarrow> nat \<Rightarrow> nat \<Rightarrow> nat \<Rightarrow> nat \<Rightarrow> fl" where
  "bc_at a m n i j = entry a (if nrows a = m then i else 0) (if ncols a = n then j else 0)"

definition arr_binop :: "(fl \<Rightarrow> fl \<Rightarrow> fl) \<Rightarrow> ndarray \<Rightarrow> ndarray \<Rightarrow> py_exn + ndarray" where
  "arr_binop f a b =
     (case (bc_dim (nrows a) (nrows b), bc_dim (ncols a) (ncols b)) of
        (Some m, Some n) \<Rightarrow>
          Inr \<lparr>nrows = m, ncols = n, entry = (\<lambda>i j. f (bc_at a m n i j) (bc_at b m n i j))\<rparr>
      | _ \<Rightarrow> Inl ValueError)"

text \<open>
  Auxiliary: the element-wise combination of two arrays of one shape, and the index pairs
  of a shape in row-major order.
\<close>

definition arr_zip :: "(fl \<Rightarrow> fl \<Rightarrow> fl) \<Rightarrow> ndarray \<Rightarrow> ndarray \<Rightarrow> ndarray" where
  "arr_zip f a b =
     \<lparr>nrows = nrows a, ncols = ncols a, entry = (\<lambda>i j. f (entry a i j) (entry b i j))\<rparr>"

definition indices :: "nat \<Rightarrow> nat \<Rightarrow> (nat \<times> nat) list" where
  "indices m n = concat (map (\<lambda>i. map (Pair i) [0..<n]) [0..<m])"

text \<open>
  An element-wise binary operation on two values; an object that is no number raises
  TypeError. Two Python numbers give a Python number; as soon as a numpy scalar takes
  part the result is a numpy scalar, and with an array it is an array.
\<close>

fun np_binop :: "(fl \<Rightarrow> fl \<Rightarrow> fl) \<Rightarrow> pyval \<Rightarrow> pyval \<Rightarrow> py_exn + pyval" where
  "np_binop f PyObj w = Inl TypeError"
| "np_binop f v PyObj = Inl TypeError"
| "np_binop f (PyNum a) (PyNum b) = Inr (PyNum (f a b))"
| "np_binop f (PyNum a) (NpNum b) = Inr (NpNum (f a b))"
| "np_binop f (NpNum a) (PyNum b) = Inr (NpNum (f a b))"
| "np_binop f (NpNum a) (NpNum b) = Inr (NpNum (f a b))"
| "np_binop f (PyNum a) (NdArray b) = Inr (NdArray (arr_map (f a) b))"
| "np_binop f (NpNum a) (NdArray b) = Inr (NdArray (arr_map (f a) b))"
| "np_binop f (NdArray a) (PyNum b) = Inr (NdArray (arr_map (\<lambda>v. f v b) a))"
| "np_binop f (NdArray a) (NpNum b) = Inr (NdArray (arr_map (\<lambda>v. f v b) a))"
| "np_binop f (NdArray a) (NdArray b) = map_sum id NdArray (arr_binop f a b)"

text \<open>
  A function of numpy applied to one value (\<^verbatim>\<open>np.ones_like\<close>, \<^verbatim>\<open>np.sqrt\<close>): for a
  number the result is a numpy scalar.
\<close>

fun np_unop :: "(fl \<Rightarrow> fl) \<Rightarrow> pyval \<Rightarrow> py_exn + pyval" where
  "np_unop f PyObj = Inl TypeError"
| "np_unop f (PyNum a) = Inr (NpNum (f a))"
| "np_unop f (NpNum a) = Inr (NpNum (f a))"
| "np_unop f (NdArray a) = Inr (NdArray (arr_map f a))"

text \<open>\<^verbatim>\<open>np.isnan(V).all()\<close>: true of an array without entries.\<close>

fun np_isnan_all :: "pyval \<Rightarrow> py_exn + bool" where
  "np_isnan_all PyObj = Inl TypeError"
| "np_isnan_all (PyNum a) = Inr (fl_isnan a)"
| "np_isnan_all (NpNum a) = Inr (fl_isnan a)"
| "np_isnan_all (NdArray a) = Inr (list_all fl_isnan (flatten a))"

text \<open>
  \<^verbatim>\<open>np.min\<close> and \<^verbatim>\<open>np.max\<close>: a reduction with \<^verbatim>\<open>np.minimum\<close> / \<^verbatim>\<open>np.maximum\<close>, so NaN as
  soon as one entry is NaN; an array without entries raises ValueError.
\<close>

definition arr_min :: "ndarray \<Rightarrow> py_exn + fl" where
  "arr_min a = (case flatten a of [] \<Rightarrow> Inl ValueError | v # vs \<Rightarrow> Inr (foldl fl_minimum v vs))"

definition arr_max :: "ndarray \<Rightarrow> py_exn + fl" where
  "arr_max a = (case flatten a of [] \<Rightarrow> Inl ValueError | v # vs \<Rightarrow> Inr (foldl fl_maximum v vs))"

fun np_min :: "pyval \<Rightarrow> py_exn + fl" where
  "np_min PyObj = Inl TypeError"
| "np_min (PyNum a) = Inr a"
| "np_min (NpNum a) = Inr a"
| "np_min (NdArray a) = arr_min a"

fun np_max :: "pyval \<Rightarrow> py_exn + fl" where
  "np_max PyObj = Inl TypeError"
| "np_max (PyNum a) = Inr a"
| "np_max (NpNum a) = Inr a"
| "np_max (NdArray a) = arr_max a"

text \<open>\<^verbatim>\<open>np.full_like(x, v, dtype=np.float64)\<close>: the shape of \<open>x\<close>, every entry \<open>v\<close>.\<close>

definition np_full_like :: "ndarray \<Rightarrow> fl \<Rightarrow> ndarray" where
  "np_full_like x v = \<lparr>nrows = nrows x, ncols = ncols x, entry = (\<lambda>i j. v)\<rparr>"

text \<open>
  \<^verbatim>\<open>V.flatten()\<close>: a method of arrays and of numpy scalars (one entry); a Python number
  has no such attribute.
\<close>

fun py_flatten :: "pyval \<Rightarrow> py_exn + fl list" where
  "py_flatten (NdArray a) = Inr (flatten a)"
| "py_flatten (NpNum a) = Inr [a]"
| "py_flatten v = Inl AttributeError"

section \<open>Evaluator\<close>

text \<open>
  Python's built-in \<^verbatim>\<open>compile\<close> and \<^verbatim>\<open>eval\<close>, matplotlib's table of colour maps and its
  \<^verbatim>\<open>streamplot\<close> are not code of the program: they are parameters of the model.
  \<open>py_compile\<close> returns a code object or raises; \<open>py_eval\<close> evaluates a code object with
  \<^verbatim>\<open>x\<close> and \<^verbatim>\<open>y\<close> bound to two arrays (and \<^verbatim>\<open>np\<close> to numpy) and returns a value or
  raises: the globals handed to \<^verbatim>\<open>eval\<close> have no \<^verbatim>\<open>__builtins__\<close>, so Python adds its
  own and a name like \<^verbatim>\<open>exit\<close> is bound. \<open>mpl_streamplot\<close> is given the grid and the
  two components of the direction field and traces the streamlines or raises (matplotlib
  wants an evenly spaced rectilinear grid with at least two points on each axis).
\<close>

record 'code runtime =
  py_compile :: "string \<Rightarrow> py_exn + 'code"
  py_eval :: "'code \<Rightarrow> ndarray \<Rightarrow> ndarray \<Rightarrow> py_exn + pyval"
  colormaps :: "string list"
  mpl_streamplot :: "ndarray \<Rightarrow> ndarray \<Rightarrow> pyval \<Rightarrow> pyval \<Rightarrow> py_exn + unit"

text \<open>
  The closure \<^verbatim>\<open>func\<close> of \<^verbatim>\<open>safe_slope_func\<close> (lines 23 to 30). \<^verbatim>\<open>np.asarray\<close> gives an
  array back as it is. The handler of line 28 is \<^verbatim>\<open>except Exception\<close>: an exception of
  that class is caught, and the result is then \<^verbatim>\<open>np.full_like(x, np.nan)\<close> (the message
  it prints is not modelled); any other exception leaves the closure.
\<close>

definition func :: "'code runtime \<Rightarrow> 'code \<Rightarrow> ndarray \<Rightarrow> ndarray \<Rightarrow> py_exn + pyval" where
  "func rt compiled x y =
     (case py_eval rt compiled x y of
        Inl e \<Rightarrow> (if is_exception e then Inr (NdArray (np_full_like x NaN)) else Inl e)
      | Inr v \<Rightarrow> Inr v)"

text \<open>\<^verbatim>\<open>safe_slope_func\<close> (lines 21 to 31): \<^verbatim>\<open>compile\<close> is called outside any handler.\<close>

definition safe_slope_func ::
  "'code runtime \<Rightarrow> string \<Rightarrow> py_exn + (ndarray \<Rightarrow> ndarray \<Rightarrow> py_exn + pyval)" where
  "safe_slope_func rt expr =
     (case py_compile rt expr of
        Inl e \<Rightarrow> Inl e
      | Inr compiled \<Rightarrow> Inr (func rt compiled))"

text \<open>The entries of a value that are NaN, by row and column (none for a value that is no array).\<close>

definition nan_points :: "pyval \<Rightarrow> (nat \<times> nat) set" where
  "nan_points v =
     (case v of
        NdArray a \<Rightarrow> {(i, j). i < nrows a \<and> j < ncols a \<and> fl_isnan (entry a i j)}
      | _ \<Rightarrow> {})"

section \<open>Grid builder\<close>

text \<open>
  \<^verbatim>\<open>np.arange(start, stop, step)\<close> for a positive step: \<open>\<lceil>(stop - start) / step\<rceil>\<close> values
  \<open>start + i * step\<close>, none if that number is not positive. The quotient and the values
  are exact here. numpy rounds them to float64: when the exact quotient is an integer
  or next to one, its count can be one more (\<^verbatim>\<open>np.arange(0.01, 2.41, 0.05)\<close> has 49
  values, the last one 2.41), and a value can differ from \<open>start + i * step\<close> in the
  last digit. The first value is \<open>start\<close> in both.
\<close>

definition np_arange :: "real \<Rightarrow> real \<Rightarrow> real \<Rightarrow> fl list" where
  "np_arange start stop step =
     map (\<lambda>i. Fin (start + real i * step)) [0..<nat \<lceil>(stop - start) / step\<rceil>]"

text \<open>
  Python's \<^verbatim>\<open>int\<close> of a float truncates towards zero. The argument is exact here;
  Python truncates the rounded quotient (\<^verbatim>\<open>int(0.15 / 0.05)\<close> is 2).
\<close>

definition py_int :: "real \<Rightarrow> int" where
  "py_int v = (if 0 \<le> v then \<lfloor>v\<rfloor> else \<lceil>v\<rceil>)"

definition np_log10 :: "real \<Rightarrow> fl" where
  "np_log10 v = (if 0 < v then Fin (log 10 v) else if v = 0 then NInf else NaN)"

text \<open>
  \<^verbatim>\<open>np.linspace(start, stop, num)\<close>: a negative \<open>num\<close> raises ValueError; otherwise \<open>num\<close>
  values \<open>i * step + start\<close> with \<open>step = (stop - start) / (num - 1)\<close>, the last one set
  to \<open>stop\<close> when there are at least two. \<^verbatim>\<open>np.logspace\<close> is 10 to the power of these.
\<close>

definition np_linspace :: "fl \<Rightarrow> fl \<Rightarrow> int \<Rightarrow> py_exn + fl list" where
  "np_linspace start stop num =
     (if num < 0 then Inl ValueError
      else
        let n = nat num;
            delta = fl_sub stop start;
            step = (if n = 1 then delta else fl_div delta (Fin (real (n - 1))))
        in Inr (map (\<lambda>i. if 1 < n \<and> i = n - 1 then stop
                           else fl_add (fl_mul (Fin (real i)) step) start) [0..<n]))"

definition np_logspace :: "fl \<Rightarrow> fl \<Rightarrow> int \<Rightarrow> py_exn + fl list" where
  "np_logspace start stop num = map_sum id (map fl_pow10) (np_linspace start stop num)"

text \<open>\<^verbatim>\<open>np.meshgrid(xs, ys)\<close>: one row for each entry of \<open>ys\<close>, one column for each entry of \<open>xs\<close>.\<close>

definition np_meshgrid :: "fl list \<Rightarrow> fl list \<Rightarrow> ndarray \<times> ndarray" where
  "np_meshgrid xs ys =
     (\<lparr>nrows = length ys, ncols = length xs, entry = (\<lambda>i j. xs ! j)\<rparr>,
      \<lparr>nrows = length ys, ncols = length xs, entry = (\<lambda>i j. ys ! i)\<rparr>)"

text \<open>
  \<^verbatim>\<open>R * np.cos(T), R * np.sin(T)\<close> (lines 49 and 54), with exact cosine, sine and
  products; the float64 coordinates differ from these in the last digits.
\<close>

definition polar_to_cartesian :: "ndarray \<times> ndarray \<Rightarrow> py_exn + (ndarray \<times> ndarray)" where
  "polar_to_cartesian RT =
     (case RT of (R, T) \<Rightarrow>
        and_then (arr_binop fl_mul R (arr_map fl_cos T)) (\<lambda>X.
        and_then (arr_binop fl_mul R (arr_map fl_sin T)) (\<lambda>Y.
        Inr (X, Y))))"

text \<open>
  The choice of the grid in \<^verbatim>\<open>generate_plot\<close> (lines 40 to 68), by the name of the
  coordinate system; the extents are finite numbers.
\<close>

definition build_grid :: "string \<Rightarrow> real \<Rightarrow> real \<Rightarrow> py_exn + (ndarray \<times> ndarray)" where
  "build_grid coord_system x_max y_max =
     (let step = 5 / 100 in
      if coord_system = ''Cartesian'' then
        (let x_vals = np_arange (- x_max) (x_max + step) step;
             y_vals = np_arange (- y_max) (y_max + step) step
         in Inr (np_meshgrid x_vals y_vals))
      else if coord_system = ''Polar'' then
        (let r = np_arange (1 / 100) x_max step;
             theta = np_arange 0 (2 * pi) step
         in polar_to_cartesian (np_meshgrid r theta))
      else if coord_system = ''Log-Polar'' then
        and_then (np_logspace (Fin (- 1)) (np_log10 x_max) (py_int (x_max / step))) (\<lambda>r.
        and_then (np_linspace (Fin 0) (Fin (2 * pi)) (py_int (2 * pi / step))) (\<lambda>theta.
        polar_to_cartesian (np_meshgrid r theta)))
      else if coord_system = ''Log-Log'' then
        and_then (np_logspace (Fin (- 1)) (np_log10 x_max) (py_int (x_max / step))) (\<lambda>x_vals.
        and_then (np_logspace (Fin (- 1)) (np_log10 y_max) (py_int (y_max / step))) (\<lambda>y_vals.
        Inr (np_meshgrid x_vals y_vals)))
      else if coord_system = ''Hexagonal'' then
        (let x_vals = np_arange (- x_max) (x_max + step) (2 / 10);
             y_vals = np_arange (- y_max) (y_max + step) (2 / 10 * sqrt 3)
         in Inr (np_meshgrid x_vals y_vals))
      else if coord_system = ''Complex Plane'' then
        (let real_vals = np_arange (- x_max) (x_max + step) step;
             imag_vals = np_arange (- y_max) (y_max + step) step
         in Inr (np_meshgrid real_vals imag_vals))
      else Inl ValueError)"

text \<open>The distance of a sample point from the origin.\<close>

definition radius :: "fl \<Rightarrow> fl \<Rightarrow> fl" where
  "radius x y = fl_sqrt (fl_add (fl_mul x x) (fl_mul y y))"

section \<open>Field renderer\<close>

text \<open>
  What a render call leaves on the axes: a plot, or the diagnostic text on cleared axes
  without ticks. A segment carries its end points, the slope value that gives its colour
  and its opacity.
\<close>

record segment =
  seg_xs :: fl
  seg_xe :: fl
  seg_ys :: fl
  seg_ye :: fl
  seg_value :: fl
  seg_alpha :: fl

datatype drawing = Streamlines | Segments (segments: "segment list")

record plot =
  xlim :: "fl \<times> fl"
  ylim :: "fl \<times> fl"
  title :: string
  cmap :: string
  vmin :: fl
  vmax :: fl
  drawn :: drawing

datatype display = Plot (shown: plot) | ErrorText (message: string)

definition failure_text :: string where
  "failure_text =
     ''Error: Invalid function'' @ [CHR 0x0A] @ ''Use TI-84 style syntax like x^2 + sin(x)''"

text \<open>\<^verbatim>\<open>np.sqrt(U**2 + V**2)\<close> (line 74), the squares as products.\<close>

definition segment_length :: "pyval \<Rightarrow> pyval \<Rightarrow> py_exn + pyval" where
  "segment_length U V =
     and_then (np_binop fl_mul U U) (\<lambda>U2.
     and_then (np_binop fl_mul V V) (\<lambda>V2.
     and_then (np_binop fl_add U2 V2) (np_unop fl_sqrt)))"

text \<open>
  Auxiliary: the length \<open>sqrt(1 + v * v)\<close> that line 74 computes for one slope value,
  and the component of the normalised direction for a numerator \<open>w\<close> (1 or the slope).
\<close>

definition length_of :: "fl \<Rightarrow> fl" where
  "length_of v = fl_sqrt (fl_add (fl_mul (Fin 1) (Fin 1)) (fl_mul v v))"

definition norm_of :: "fl \<Rightarrow> fl \<Rightarrow> fl" where
  "norm_of w v = fl_div (fl_mul (Fin (25 / 100)) w) (length_of v)"

text \<open>\<^verbatim>\<open>0.25 * W / length\<close> (lines 75 and 76).\<close>

definition normalized :: "pyval \<Rightarrow> pyval \<Rightarrow> py_exn + pyval" where
  "normalized W len =
     and_then (np_binop fl_mul (PyNum (Fin (25 / 100))) W) (\<lambda>scaled.
     np_binop fl_div scaled len)"

text \<open>\<^verbatim>\<open>P - W / 2\<close> and \<^verbatim>\<open>P + W / 2\<close> (lines 77 to 80), with \<open>op\<close> the subtraction or the addition.\<close>

definition half_step :: "(fl \<Rightarrow> fl \<Rightarrow> fl) \<Rightarrow> ndarray \<Rightarrow> pyval \<Rightarrow> py_exn + pyval" where
  "half_step op P W =
     and_then (np_binop fl_div W (PyNum (Fin 2))) (\<lambda>half.
     np_binop op (NdArray P) half)"

text \<open>\<^verbatim>\<open>np.clip(abs((ye - ys) / 0.25), 0.2, 1.0)\<close> (line 101).\<close>

definition segment_alpha :: "fl \<Rightarrow> fl \<Rightarrow> fl" where
  "segment_alpha ys ye =
     np_clip (fl_abs (fl_div (fl_sub ye ys) (Fin (25 / 100)))) (Fin (2 / 10)) (Fin 1)"

text \<open>The loop of lines 100 to 102: \<^verbatim>\<open>zip\<close> stops with its shortest argument.\<close>

definition make_segments :: "fl list \<Rightarrow> fl list \<Rightarrow> fl list \<Rightarrow> fl list \<Rightarrow> fl list \<Rightarrow> segment list" where
  "make_segments Xs Xe Ys Ye Vs =
     map (\<lambda>(xs, xe, ys, ye, v).
            \<lparr>seg_xs = xs, seg_xe = xe, seg_ys = ys, seg_ye = ye, seg_value = v,
             seg_alpha = segment_alpha ys ye\<rparr>)
         (zip Xs (zip Xe (zip Ys (zip Ye Vs))))"

text \<open>
  Auxiliary: the segments of a field \<open>A\<close> that has the shape of the grid, one for each
  grid point, with the end points of lines 77 to 80 written out for each entry.
\<close>

definition field_segments :: "ndarray \<Rightarrow> ndarray \<Rightarrow> ndarray \<Rightarrow> segment list" where
  "field_segments X Y A =
     make_segments
       (flatten (arr_zip (\<lambda>p v. fl_sub p (fl_div (norm_of (Fin 1) v) (Fin 2))) X A))
       (flatten (arr_zip (\<lambda>p v. fl_add p (fl_div (norm_of (Fin 1) v) (Fin 2))) X A))
       (flatten (arr_zip (\<lambda>p v. fl_sub p (fl_div (norm_of v v) (Fin 2))) Y A))
       (flatten (arr_zip (\<lambda>p v. fl_add p (fl_div (norm_of v v) (Fin 2))) Y A))
       (flatten A)"

text \<open>
  The opacity \<^verbatim>\<open>ax.plot\<close> accepts: matplotlib raises ValueError unless
  \<^verbatim>\<open>0 <= alpha <= 1\<close>, a comparison that NaN fails.
\<close>

definition alpha_ok :: "fl \<Rightarrow> bool" where
  "alpha_ok a = (fl_le (Fin 0) a \<and> fl_le a (Fin 1))"

text \<open>
  Lines 96 to 102. With streamlines the grid and the field go to matplotlib's
  \<^verbatim>\<open>streamplot\<close>. Otherwise every segment is handed to \<^verbatim>\<open>ax.plot\<close> with its opacity, and
  the first opacity that matplotlib rejects ends the loop with ValueError.
\<close>

definition draw ::
  "'code runtime \<Rightarrow> bool \<Rightarrow> ndarray \<Rightarrow> ndarray \<Rightarrow> pyval \<Rightarrow> pyval \<Rightarrow>
     pyval \<Rightarrow> pyval \<Rightarrow> pyval \<Rightarrow> pyval \<Rightarrow> py_exn + drawing" where
  "draw rt streamplot X Y U V X_start X_end Y_start Y_end =
     (if streamplot then and_then (mpl_streamplot rt X Y U V) (\<lambda>traced. Inr Streamlines)
      else
        and_then (py_flatten V) (\<lambda>Vs.
        and_then (py_flatten X_start) (\<lambda>Xs.
        and_then (py_flatten X_end) (\<lambda>Xe.
        and_then (py_flatten Y_start) (\<lambda>Ys.
        and_then (py_flatten Y_end) (\<lambda>Ye.
        let segs = make_segments Xs Xe Ys Ye Vs in
        if list_all (\<lambda>s. alpha_ok (seg_alpha s)) segs then Inr (Segments segs)
        else Inl ValueError))))))"

text \<open>The \<^verbatim>\<open>try\<close> block of \<^verbatim>\<open>generate_plot\<close> (lines 40 to 111).\<close>

definition plot_body ::
  "'code runtime \<Rightarrow> (ndarray \<Rightarrow> ndarray \<Rightarrow> py_exn + pyval) \<Rightarrow> string \<Rightarrow> real \<Rightarrow> real \<Rightarrow>
     string \<Rightarrow> bool \<Rightarrow> string \<Rightarrow> py_exn + plot" where
  "plot_body rt slope_func expr_raw x_max y_max cmap_name streamplot coord_system =
     and_then (build_grid coord_system x_max y_max) (\<lambda>(X, Y).
     and_then (slope_func X Y) (\<lambda>V.
     and_then (np_isnan_all V) (\<lambda>all_nan.
     if all_nan then Inl ValueError
     else
       and_then (np_unop (\<lambda>v. Fin 1) V) (\<lambda>U.
       and_then (segment_length U V) (\<lambda>len.
       and_then (normalized U len) (\<lambda>U_norm.
       and_then (normalized V len) (\<lambda>V_norm.
       and_then (half_step fl_sub X U_norm) (\<lambda>X_start.
       and_then (half_step fl_add X U_norm) (\<lambda>X_end.
       and_then (half_step fl_sub Y V_norm) (\<lambda>Y_start.
       and_then (half_step fl_add Y V_norm) (\<lambda>Y_end.
       and_then (arr_min X) (\<lambda>x_lo.
       and_then (arr_max X) (\<lambda>x_hi.
       and_then (arr_min Y) (\<lambda>y_lo.
       and_then (arr_max Y) (\<lambda>y_hi.
       and_then (if cmap_name \<in> set (colormaps rt) then Inr cmap_name else Inl KeyError) (\<lambda>cm.
       and_then (np_min V) (\<lambda>v_lo.
       and_then (np_max V) (\<lambda>v_hi.
       and_then (draw rt streamplot X Y U V X_start X_end Y_start Y_end) (\<lambda>d.
       Inr \<lparr>xlim = (x_lo, x_hi), ylim = (y_lo, y_hi),
            title = ''Slope Field for dy/dx = '' @ expr_raw,
            cmap = cm, vmin = v_lo, vmax = v_hi, drawn = d\<rparr>)))))))))))))))))))"

text \<open>
  \<^verbatim>\<open>generate_plot\<close> (lines 34 to 121). The translation and \<^verbatim>\<open>safe_slope_func\<close> come
  before the \<^verbatim>\<open>try\<close>: an exception of theirs leaves the call (\<open>Inl\<close>). The handler
  of line 113 is \<^verbatim>\<open>except Exception\<close>: an exception of that class raised in the
  \<^verbatim>\<open>try\<close> block is caught, the axes are cleared and the diagnostic text is shown; any
  other exception leaves the call.
\<close>

definition generate_plot ::
  "'code runtime \<Rightarrow> string \<Rightarrow> real \<Rightarrow> real \<Rightarrow> string \<Rightarrow> bool \<Rightarrow> string \<Rightarrow> py_exn + display" where
  "generate_plot rt expr_raw x_max y_max cmap_name streamplot coord_system =
     (let expr = ti84_to_numpy expr_raw in
      case safe_slope_func rt expr of
        Inl e \<Rightarrow> Inl e
      | Inr slope_func \<Rightarrow>
          (case plot_body rt slope_func expr_raw x_max y_max cmap_name streamplot coord_system of
             Inl e \<Rightarrow> (if is_exception e then Inr (ErrorText failure_text) else Inl e)
           | Inr p \<Rightarrow> Inr (Plot p)))"

section \<open>A runtime for the examples\<close>

text \<open>
  A small stand-in for Python on the expressions used in the examples below. Its
  \<open>compile\<close> rejects a text whose parentheses do not balance (as Python does) and
  otherwise keeps the text; its \<open>eval\<close> knows a numeric literal, the two variables, the
  square root and the reciprocal of \<^verbatim>\<open>x\<close> and the call \<^verbatim>\<open>exit()\<close> of Python's built-in
  of that name, which raises SystemExit; it treats any other text as an unbound name.
  Its \<open>streamplot\<close> checks only that the two components have the shape of the grid (no
  example traces streamlines).
\<close>

fun balanced :: "nat \<Rightarrow> string \<Rightarrow> bool" where
  "balanced d [] = (d = 0)"
| "balanced d (c # cs) =
     (if c = CHR ''('' then balanced (Suc d) cs
      else if c = CHR '')'' then (0 < d \<and> balanced (d - 1) cs)
      else balanced d cs)"

definition example_compile :: "string \<Rightarrow> py_exn + string" where
  "example_compile s = (if balanced 0 s then Inr s else Inl SyntaxError)"

definition example_eval :: "string \<Rightarrow> ndarray \<Rightarrow> ndarray \<Rightarrow> py_exn + pyval" where
  "example_eval code x y =
     (if code = ''1'' then Inr (PyNum (Fin 1))
      else if code = ''x'' then Inr (NdArray x)
      else if code = ''y'' then Inr (NdArray y)
      else if code = ''np.sqrt(x)'' then Inr (NdArray (arr_map fl_sqrt x))
      else if code = ''1/x'' then Inr (NdArray (arr_map (fl_div (Fin 1)) x))
      else if code = ''exit()'' then Inl SystemExit
      else Inl NameError)"

definition example_streamplot :: "ndarray \<Rightarrow> ndarray \<Rightarrow> pyval \<Rightarrow> pyval \<Rightarrow> py_exn + unit" where
  "example_streamplot X Y U V =
     (if np_shape U = [nrows X, ncols X] \<and> np_shape V = [nrows X, ncols X] then Inr ()
      else Inl ValueError)"

definition example_runtime :: "string runtime" where
  "example_runtime =
     \<lparr>py_compile = example_compile, py_eval = example_eval,
      colormaps = [''rainbow'', ''viridis'', ''plasma'', ''magma'', ''turbo'', ''coolwarm'', ''cividis''],
      mpl_streamplot = example_streamplot\<rparr>"

text \<open>A grid of one row and two columns for the examples.\<close>

definition example_grid :: ndarray where
  "example_grid = \<lparr>nrows = 1, ncols = 2, entry = (\<lambda>i j. if j = 0 then Fin (- 1) else Fin 4)\<rparr>"

text \<open>The same with 0 in place of -1.\<close>

definition example_grid_zero :: ndarray where
  "example_grid_zero = \<lparr>nrows = 1, ncols = 2, entry = (\<lambda>i j. if j = 0 then Fin 0 else Fin 4)\<rparr>"

section \<open>The translator: proofs\<close>

text \<open>
  C4: the translator is the seven substitutions of the table, in the table's order, each
  a global left-to-right replacement; on \<^verbatim>\<open>x^2 + sin(x)\<close> the power and the sine
  rewriting both apply and give \<^verbatim>\<open>x**2 + np.sin(x)\<close>.
\<close>

theorem ti84_to_numpy_is_table:
  "ti84_to_numpy raw = translate_spec raw
   \<and> map fst substitution_table = [''^'', ''sin'', ''cos'', ''tan'', ''log'', ''ln'', ''sqrt'']
   \<and> ti84_to_numpy ''x^2 + sin(x)'' = ''x**2 + np.sin(x)''"
  by (simp add: ti84_to_numpy_def translate_spec_def substitution_table_def str_replace_def)

lemma hd_concat_tokens:
  assumes "\<forall>t\<in>set ts. t \<noteq> []" "ts \<noteq> []"
  shows "concat ts \<noteq> [] \<and> hd (concat ts) = hd (hd ts)"
  using assms by (cases ts) auto

lemma no_match_across:
  assumes safe: "token_safe p T" and t: "t \<in> set T" "t \<noteq> p"
    and u: "suffix u t" "u \<noteq> []"
    and w: "w = [] \<or> (\<exists>t'\<in>set T. hd w = hd t')"
  shows "\<not> prefix p (u @ w)"
proof
  assume m: "prefix p (u @ w)"
  from safe t have "\<forall>u\<in>set (suffixes t). u = [] \<or> (\<not> prefix p u \<and>
      (prefix u p \<longrightarrow> (\<forall>t'\<in>set T. hd t' \<noteq> p ! length u)))"
    unfolding token_safe_def list_all_iff by blast
  moreover from u have "u \<in> set (suffixes t)" by simp
  ultimately have nu: "\<not> prefix p u"
    and look: "prefix u p \<Longrightarrow> \<forall>t'\<in>set T. hd t' \<noteq> p ! length u"
    using u by blast+
  from m nu obtain zs where zs: "p = u @ zs" "prefix zs w"
    by (auto simp: prefix_append)
  with nu have "zs \<noteq> []" by auto
  with zs have "w \<noteq> []" "hd w = hd zs" by (auto simp: prefix_def)
  moreover from zs \<open>zs \<noteq> []\<close> have "p ! length u = hd zs" by (simp add: hd_conv_nth nth_append)
  moreover from zs have "prefix u p" by simp
  ultimately show False using look w by auto
qed

lemma replace_from_skip:
  assumes safe: "token_safe p T" and t: "t \<in> set T" "t \<noteq> p"
    and w: "w = [] \<or> (\<exists>t'\<in>set T. hd w = hd t')"
  shows "suffix u t \<Longrightarrow> replace_from p new (u @ w) = u @ replace_from p new w"
proof (induction u)
  case Nil
  show ?case by simp
next
  case (Cons c u)
  then have "suffix u t" by (auto simp: suffix_Cons dest: suffix_ConsD)
  moreover have "\<not> prefix p ((c # u) @ w)"
    using no_match_across [OF safe t Cons.prems _ w] by simp
  ultimately show ?case using Cons.IH by simp
qed

lemma replace_from_tokens:
  assumes safe: "token_safe p T"
  shows "set ts \<subseteq> set T \<Longrightarrow>
    replace_from p new (concat ts) = concat (map (subst_token p new) ts)"
proof (induction ts)
  case Nil
  show ?case by simp
next
  case (Cons t ts)
  from safe have ne: "\<forall>t\<in>set T. t \<noteq> []" and p: "p \<noteq> []"
    by (auto simp: token_safe_def list_all_iff)
  from Cons.prems have tT: "t \<in> set T" and sub: "set ts \<subseteq> set T" by auto
  have w: "concat ts = [] \<or> (\<exists>t'\<in>set T. hd (concat ts) = hd t')"
  proof (cases ts)
    case Nil
    then show ?thesis by simp
  next
    case (Cons a as)
    with sub ne have "hd (concat ts) = hd a" "a \<in> set T" by auto
    then show ?thesis by blast
  qed
  show ?case
  proof (cases "t = p")
    case True
    with p obtain c cs where pc: "p = c # cs" by (cases p) auto
    have "replace_from p new (p @ concat ts) = new @ replace_from p new (concat ts)"
      by (simp add: pc)
    with True Cons.IH [OF sub] show ?thesis by (simp add: subst_token_def)
  next
    case False
    from replace_from_skip [OF safe tT False w, of t new] Cons.IH [OF sub] False
    show ?thesis by (simp add: subst_token_def)
  qed
qed


lemma str_replace_tokens:
  assumes "token_safe p T" "set ts \<subseteq> set T"
  shows "str_replace (concat ts) p new = concat (map (subst_token p new) ts)
    \<and> set (map (subst_token p new) ts) \<subseteq> set (map (subst_token p new) T)"
proof -
  from assms(1) have "p \<noteq> []" by (simp add: token_safe_def)
  then show ?thesis
    using replace_from_tokens [OF assms] assms(2) by (auto simp: str_replace_def)
qed

lemma stage_safe:
  "token_safe ''^'' vocabulary"
  "token_safe ''sin'' tokens1"
  "token_safe ''cos'' tokens2"
  "token_safe ''tan'' tokens3"
  "token_safe ''log'' tokens4"
  "token_safe ''ln'' tokens5"
  "token_safe ''sqrt'' tokens6"
  by code_simp+

lemma ti84_to_numpy_tokens:
  assumes "set ts \<subseteq> set vocabulary"
  shows "\<exists>us. ti84_to_numpy (concat ts) = concat us \<and> set us \<subseteq> set tokens7"
proof -
  note step = str_replace_tokens
  from step [OF stage_safe(1) assms, of "''**''"]
  obtain u1 where 1: "str_replace (concat ts) ''^'' ''**'' = concat u1" "set u1 \<subseteq> set tokens1"
    unfolding tokens1_def by blast
  from step [OF stage_safe(2) 1(2), of "''np.sin''"]
  obtain u2 where 2: "str_replace (concat u1) ''sin'' ''np.sin'' = concat u2" "set u2 \<subseteq> set tokens2"
    unfolding tokens2_def by blast
  from step [OF stage_safe(3) 2(2), of "''np.cos''"]
  obtain u3 where 3: "str_replace (concat u2) ''cos'' ''np.cos'' = concat u3" "set u3 \<subseteq> set tokens3"
    unfolding tokens3_def by blast
  from step [OF stage_safe(4) 3(2), of "''np.tan''"]
  obtain u4 where 4: "str_replace (concat u3) ''tan'' ''np.tan'' = concat u4" "set u4 \<subseteq> set tokens4"
    unfolding tokens4_def by blast
  from step [OF stage_safe(5) 4(2), of "''np.log10''"]
  obtain u5 where 5: "str_replace (concat u4) ''log'' ''np.log10'' = concat u5" "set u5 \<subseteq> set tokens5"
    unfolding tokens5_def by blast
  from step [OF stage_safe(6) 5(2), of "''np.log''"]
  obtain u6 where 6: "str_replace (concat u5) ''ln'' ''np.log'' = concat u6" "set u6 \<subseteq> set tokens6"
    unfolding tokens6_def by blast
  from step [OF stage_safe(7) 6(2), of "''np.sqrt''"]
  obtain u7 where 7: "str_replace (concat u6) ''sqrt'' ''np.sqrt'' = concat u7" "set u7 \<subseteq> set tokens7"
    unfolding tokens7_def by blast
  have "ti84_to_numpy (concat ts) = concat u7"
    unfolding ti84_to_numpy_def 1(1) 2(1) 3(1) 4(1) 5(1) 6(1) 7(1) ..
  with 7(2) show ?thesis by blast
qed

lemma anchoredD:
  "anchored c k s \<Longrightarrow> j < length s \<Longrightarrow> s ! j = c \<Longrightarrow> k \<le> j \<and> take 3 (drop (j - k) s) = ''np.''"
  by (simp add: anchored_def list_all_iff)

lemma anchored_append:
  assumes a: "anchored c k a" and b: "anchored c k b"
  shows "anchored c k (a @ b)"
  unfolding anchored_def list_all_iff
proof (intro ballI impI)
  fix j assume j: "j \<in> set [0..<length (a @ b)]" and c: "(a @ b) ! j = c"
  show "k \<le> j \<and> take 3 (drop (j - k) (a @ b)) = ''np.''"
  proof (cases "j < length a")
    case True
    with c have "a ! j = c" by (simp add: nth_append)
    from anchoredD [OF a True this] have k: "k \<le> j" and t: "take 3 (drop (j - k) a) = ''np.''"
      by auto
    from t have "3 \<le> length (drop (j - k) a)"
      by (metis length_take min.cobounded1 length_Cons list.size(3) numeral_3_eq_3)
    with t k True show ?thesis by simp
  next
    case False
    with j c have j': "j - length a < length b" "b ! (j - length a) = c"
      by (auto simp: nth_append)
    from anchoredD [OF b j'] have "k \<le> j - length a"
      and "take 3 (drop (j - length a - k) b) = ''np.''" by auto
    with False show ?thesis by (simp add: algebra_simps)
  qed
qed

lemma anchored_concat: "\<forall>t\<in>set us. anchored c k t \<Longrightarrow> anchored c k (concat us)"
proof (induction us)
  case Nil
  show ?case by (simp add: anchored_def)
next
  case (Cons t us)
  then show ?case by (simp add: anchored_append)
qed

lemma anchored_occurrence:
  assumes a: "anchored c (d + 3) s" and d: "d < length nm" "nm ! d = c"
    and occ: "take (length nm) (drop i s) = nm"
  shows "3 \<le> i \<and> take 3 (drop (i - 3) s) = ''np.''"
proof -
  have "length (take (length nm) (drop i s)) = length nm" by (simp only: occ)
  then have "length nm \<le> length s - i" by simp
  with d have lt: "i + d < length s" by simp
  have "take (length nm) (drop i s) ! d = s ! (i + d)"
    using d(1) lt by simp
  with occ d have "s ! (i + d) = c" by simp
  from anchoredD [OF a lt this] show ?thesis by simp
qed

lemma tokens7_anchored:
  "\<forall>t\<in>set tokens7. anchored CHR ''i'' 4 t"
  "\<forall>t\<in>set tokens7. anchored CHR ''c'' 3 t"
  "\<forall>t\<in>set tokens7. anchored CHR ''a'' 4 t"
  "\<forall>t\<in>set tokens7. anchored CHR ''l'' 3 t"
  "\<forall>t\<in>set tokens7. anchored CHR ''q'' 4 t"
  "\<forall>t\<in>set tokens7. CHR ''^'' \<notin> set t"
  by code_simp+

text \<open>
  C5: for every raw expression made of tokens of the vocabulary, the translated string
  has no \<^verbatim>\<open>^\<close> and no occurrence of a function name that is not directly preceded by
  \<^verbatim>\<open>np.\<close>.
\<close>

theorem translated_names_namespaced:
  assumes "set ts \<subseteq> set vocabulary"
  shows "CHR ''^'' \<notin> set (ti84_to_numpy (concat ts))
    \<and> bare_occurrences (ti84_to_numpy (concat ts)) = []"
proof -
  from ti84_to_numpy_tokens [OF assms] obtain us
    where out: "ti84_to_numpy (concat ts) = concat us" and us: "set us \<subseteq> set tokens7"
    by blast
  let ?s = "concat us"
  have a1: "anchored CHR ''i'' (1 + 3) ?s"
    using us tokens7_anchored(1) by (intro anchored_concat) (simp, blast)
  have a2: "anchored CHR ''c'' (0 + 3) ?s"
    using us tokens7_anchored(2) by (intro anchored_concat) (simp, blast)
  have a3: "anchored CHR ''a'' (1 + 3) ?s"
    using us tokens7_anchored(3) by (intro anchored_concat) (simp, blast)
  have a4: "anchored CHR ''l'' (0 + 3) ?s"
    using us tokens7_anchored(4) by (intro anchored_concat) (simp, blast)
  have a5: "anchored CHR ''q'' (1 + 3) ?s"
    using us tokens7_anchored(5) by (intro anchored_concat) (simp, blast)
  have "\<forall>t\<in>set us. CHR ''^'' \<notin> set t"
    using us tokens7_anchored(6) by blast
  then have caret: "CHR ''^'' \<notin> set ?s" by simp
  have ok: "\<forall>i. take (length nm) (drop i ?s) = nm \<longrightarrow> 3 \<le> i \<and> take 3 (drop (i - 3) ?s) = ''np.''"
    if "nm \<in> set function_names" for nm
  proof -
    from that have "nm = ''sin'' \<or> nm = ''cos'' \<or> nm = ''tan''
        \<or> nm = ''log'' \<or> nm = ''ln'' \<or> nm = ''sqrt''"
      unfolding function_names_def by simp
    then show ?thesis
    proof (elim disjE)
      assume "nm = ''sin''"
      then show ?thesis using anchored_occurrence [OF a1, of "''sin''"] by simp
    next
      assume "nm = ''cos''"
      then show ?thesis using anchored_occurrence [OF a2, of "''cos''"] by simp
    next
      assume "nm = ''tan''"
      then show ?thesis using anchored_occurrence [OF a3, of "''tan''"] by simp
    next
      assume "nm = ''log''"
      then show ?thesis using anchored_occurrence [OF a4, of "''log''"] by simp
    next
      assume "nm = ''ln''"
      then show ?thesis using anchored_occurrence [OF a4, of "''ln''"] by simp
    next
      assume "nm = ''sqrt''"
      then show ?thesis using anchored_occurrence [OF a5, of "''sqrt''"] by simp
    qed
  qed
  have "bare_occurrences ?s = []"
    unfolding bare_occurrences_def concat_eq_Nil_conv
    using ok by (simp add: filter_empty_conv)
  with caret out show ?thesis by simp
qed

theorem translated_names_namespaced_witness:
  "set [''x'', ''^'', ''2'', '' '', ''+'', '' '', ''sin'', ''('', ''x'', '')''] \<subseteq> set vocabulary
   \<and> CHR ''^'' \<notin> set (ti84_to_numpy ''x^2 + sin(x)'')
   \<and> bare_occurrences (ti84_to_numpy ''x^2 + sin(x)'') = []"
proof -
  have v: "set [''x'', ''^'', ''2'', '' '', ''+'', '' '', ''sin'', ''('', ''x'', '')''] \<subseteq> set vocabulary"
    by (simp add: vocabulary_def)
  from translated_names_namespaced [OF v] v show ?thesis by simp
qed

section \<open>Evaluator and render call: proofs\<close>

lemma and_then_simps:
  "and_then (Inl e) f = Inl e"
  "and_then (Inr v) f = f v"
  by (simp_all add: and_then_def)

text \<open>
  C8: for all extents, the grid built for the Complex Plane system is the grid built for
  the Cartesian system: the same X array and the same Y array.
\<close>

theorem complex_plane_grid_is_cartesian:
  "build_grid ''Complex Plane'' x_max y_max = build_grid ''Cartesian'' x_max y_max"
  by (simp add: build_grid_def)

text \<open>
  C1: when the translated expression does not compile, the exception of \<^verbatim>\<open>compile\<close>
  leaves \<^verbatim>\<open>generate_plot\<close>: the call is made before the \<^verbatim>\<open>try\<close> block, so no grid is
  built, but the handler that shows the diagnostic text is never reached.
\<close>

theorem compile_error_escapes:
  assumes "py_compile rt (ti84_to_numpy expr_raw) = Inl e"
  shows "generate_plot rt expr_raw x_max y_max cmap_name streamplot coord_system = Inl e"
  using assms by (simp add: generate_plot_def safe_slope_func_def)

lemma ti84_sin_open: "ti84_to_numpy ''sin(x'' = ''np.sin(x''"
  by (simp add: ti84_to_numpy_def str_replace_def)

theorem compile_error_escapes_witness:
  "py_compile example_runtime (ti84_to_numpy ''sin(x'') = Inl SyntaxError
   \<and> generate_plot example_runtime ''sin(x'' 10 10 ''viridis'' False ''Cartesian'' = Inl SyntaxError"
proof -
  have c: "py_compile example_runtime (ti84_to_numpy ''sin(x'') = Inl SyntaxError"
    by (simp add: ti84_sin_open example_runtime_def example_compile_def)
  from compile_error_escapes [OF c] c show ?thesis by simp
qed

lemma flatten_full_like: "set (flatten (np_full_like x v)) \<subseteq> {v}"
  by (auto simp: flatten_def np_full_like_def)

lemma isnan_all_full_like: "np_isnan_all (NdArray (np_full_like x NaN)) = Inr True"
  using flatten_full_like [of x NaN] by (auto simp: list_all_iff fl_isnan_def)

text \<open>
  C2 (amended): when the evaluation raises an exception of class \<^verbatim>\<open>Exception\<close>, the
  evaluator does not propagate it: the result is an array of the shape of \<open>x\<close> that is
  NaN at every point. When the evaluation does not raise, the result is the value it
  computed, unchanged. An exception outside class \<^verbatim>\<open>Exception\<close> leaves the evaluator,
  and nothing else does.
\<close>

theorem func_contains_exceptions:
  "(\<forall>e. py_eval rt compiled x y = Inl e \<and> is_exception e \<longrightarrow>
          func rt compiled x y = Inr (NdArray (np_full_like x NaN))
          \<and> np_shape (NdArray (np_full_like x NaN)) = [nrows x, ncols x]
          \<and> nan_points (NdArray (np_full_like x NaN)) = {(i, j). i < nrows x \<and> j < ncols x})
   \<and> (\<forall>v. py_eval rt compiled x y = Inr v \<longrightarrow> func rt compiled x y = Inr v)
   \<and> (\<forall>e. func rt compiled x y = Inl e
          \<longleftrightarrow> py_eval rt compiled x y = Inl e \<and> \<not> is_exception e)"
  by (auto simp: func_def np_shape_def nan_points_def np_full_like_def fl_isnan_def
      split: sum.splits)

theorem func_contains_exceptions_witness:
  "py_eval example_runtime ''z'' example_grid example_grid = Inl NameError
   \<and> is_exception NameError
   \<and> func example_runtime ''z'' example_grid example_grid = Inr (NdArray (np_full_like example_grid NaN))
   \<and> nan_points (NdArray (np_full_like example_grid NaN)) = {(0, 0), (0, 1)}
   \<and> py_eval example_runtime ''np.sqrt(x)'' example_grid example_grid
       = Inr (NdArray (arr_map fl_sqrt example_grid))
   \<and> func example_runtime ''np.sqrt(x)'' example_grid example_grid
       = Inr (NdArray (arr_map fl_sqrt example_grid))
   \<and> nan_points (NdArray (arr_map fl_sqrt example_grid)) = {(0, 0)}
   \<and> (\<forall>e. func example_runtime ''z'' example_grid example_grid \<noteq> Inl e)"
proof -
  have z: "py_eval example_runtime ''z'' example_grid example_grid = Inl NameError"
    by (simp add: example_runtime_def example_eval_def)
  have q: "py_eval example_runtime ''np.sqrt(x)'' example_grid example_grid
      = Inr (NdArray (arr_map fl_sqrt example_grid))"
    by (simp add: example_runtime_def example_eval_def)
  have n1: "{(i, j). i < nrows example_grid \<and> j < ncols example_grid} = {(0, 0), (0, 1)}"
    by (auto simp: example_grid_def)
  have n2: "nan_points (NdArray (arr_map fl_sqrt example_grid)) = {(0, 0)}"
    by (auto simp: nan_points_def arr_map_def example_grid_def fl_isnan_def split: if_splits)
  from func_contains_exceptions [of example_runtime "''z''" example_grid example_grid]
    func_contains_exceptions [of example_runtime "''np.sqrt(x)''" example_grid example_grid]
    z q n1 n2
  show ?thesis by simp
qed

text \<open>
  The evaluator as the claim C2 states it fails twice. The call \<^verbatim>\<open>exit()\<close> raises
  SystemExit, which line 28 does not catch: the exception leaves the evaluator. And a
  fault at one point is no exception: \<^verbatim>\<open>1/x\<close> at \<open>x = 0\<close> evaluates to infinity, and the
  evaluator returns it, so the result is not NaN at the failing point.
\<close>

theorem func_exit_escapes_counterexample:
  "py_eval example_runtime ''exit()'' example_grid example_grid = Inl SystemExit
   \<and> func example_runtime ''exit()'' example_grid example_grid = Inl SystemExit
   \<and> values_of (NdArray example_grid_zero) = [Fin 0, Fin 4]
   \<and> func example_runtime ''1/x'' example_grid_zero example_grid_zero
       = Inr (NdArray (arr_map (fl_div (Fin 1)) example_grid_zero))
   \<and> values_of (NdArray (arr_map (fl_div (Fin 1)) example_grid_zero)) = [PInf, Fin (1 / 4)]
   \<and> nan_points (NdArray (arr_map (fl_div (Fin 1)) example_grid_zero)) = {}"
proof -
  have e: "py_eval example_runtime ''exit()'' example_grid example_grid = Inl SystemExit"
    by (simp add: example_runtime_def example_eval_def)
  have q: "py_eval example_runtime ''1/x'' example_grid_zero example_grid_zero
      = Inr (NdArray (arr_map (fl_div (Fin 1)) example_grid_zero))"
    by (simp add: example_runtime_def example_eval_def)
  have v0: "values_of (NdArray example_grid_zero) = [Fin 0, Fin 4]"
    by (simp add: values_of_def flatten_def example_grid_zero_def upt_rec)
  have v: "values_of (NdArray (arr_map (fl_div (Fin 1)) example_grid_zero)) = [PInf, Fin (1 / 4)]"
    by (simp add: values_of_def flatten_def arr_map_def example_grid_zero_def upt_rec
        signed_inf_def)
  have n: "nan_points (NdArray (arr_map (fl_div (Fin 1)) example_grid_zero)) = {}"
    by (auto simp: nan_points_def arr_map_def example_grid_zero_def fl_isnan_def signed_inf_def)
  show ?thesis
    using e q v0 v n by (simp add: func_def)
qed

lemma np_isnan_all_values:
  "V \<noteq> PyObj \<Longrightarrow> np_isnan_all V = Inr (list_all fl_isnan (values_of V))"
  by (cases V) (simp_all add: values_of_def)

text \<open>
  C3: a render call whose scalar field is NaN at every entry shows the diagnostic text
  (the same as for every other failure inside the \<^verbatim>\<open>try\<close> block) and no plot.
\<close>

theorem all_nan_field_fails:
  assumes "py_compile rt (ti84_to_numpy expr_raw) = Inr compiled"
    and "build_grid coord_system x_max y_max = Inr (X, Y)"
    and "func rt compiled X Y = Inr V"
    and "V \<noteq> PyObj" and "list_all fl_isnan (values_of V)"
  shows "generate_plot rt expr_raw x_max y_max cmap_name streamplot coord_system
    = Inr (ErrorText failure_text)"
  using assms np_isnan_all_values [of V]
  by (simp add: generate_plot_def safe_slope_func_def plot_body_def and_then_simps)

lemma raises_caught_simps [simp]:
  "raises_caught (Inl e) = is_exception e"
  "raises_caught (Inr v) = False"
  "nothing_escapes (Inl e) = is_exception e"
  "nothing_escapes (Inr v) = True"
  by (simp_all add: raises_caught_def nothing_escapes_def)

lemma raises_caught_and_then:
  "nothing_escapes m \<Longrightarrow> (\<And>v. m = Inr v \<Longrightarrow> raises_caught (f v)) \<Longrightarrow> raises_caught (and_then m f)"
  by (cases m) (simp_all add: and_then_simps)

lemma nothing_escapes_reductions:
  "nothing_escapes (arr_min a)" "nothing_escapes (arr_max a)"
  by (simp_all add: arr_min_def arr_max_def split: list.splits)

lemma plot_body_number:
  assumes "build_grid coord_system x_max y_max = Inr (X, Y)"
    and "slope_func X Y = Inr (PyNum k)"
  shows "raises_caught (plot_body rt slope_func expr_raw x_max y_max cmap_name False coord_system)"
  unfolding plot_body_def using assms
  by (auto simp: and_then_simps segment_length_def normalized_def half_step_def draw_def
      nothing_escapes_reductions intro!: raises_caught_and_then)

text \<open>
  C7: when the compiled expression evaluates to a Python number (an expression without
  \<^verbatim>\<open>x\<close> and \<^verbatim>\<open>y\<close>), the evaluator returns that number: its shape is \<open>()\<close>, not
  the shape of the grid, and rendering it as segments ends in the diagnostic text.
\<close>

theorem number_result_not_grid_shaped:
  assumes "py_compile rt (ti84_to_numpy expr_raw) = Inr compiled"
    and "build_grid coord_system x_max y_max = Inr (X, Y)"
    and "py_eval rt compiled X Y = Inr (PyNum k)"
  shows "func rt compiled X Y = Inr (PyNum k)
    \<and> np_shape (PyNum k) \<noteq> [nrows X, ncols X]
    \<and> generate_plot rt expr_raw x_max y_max cmap_name False coord_system
        = Inr (ErrorText failure_text)"
proof -
  have f: "func rt compiled X Y = Inr (PyNum k)"
    using assms(3) by (simp add: func_def)
  from plot_body_number [where slope_func = "func rt compiled" and rt = rt
      and expr_raw = expr_raw and cmap_name = cmap_name, OF assms(2) f]
  obtain e where "plot_body rt (func rt compiled) expr_raw x_max y_max cmap_name False coord_system = Inl e"
    and "is_exception e"
    by (auto simp: raises_caught_def split: sum.splits)
  with assms(1) f show ?thesis
    by (simp add: generate_plot_def safe_slope_func_def np_shape_def)
qed


lemma cartesian_grid_origin:
  "build_grid ''Cartesian'' 0 0 = Inr (np_meshgrid [Fin 0] [Fin 0])"
  by (simp add: build_grid_def np_arange_def)

lemma ti84_plain: "ti84_to_numpy ''z'' = ''z''" "ti84_to_numpy ''1'' = ''1''"
  by (simp_all add: ti84_to_numpy_def str_replace_def)

theorem all_nan_field_fails_witness:
  "py_compile example_runtime (ti84_to_numpy ''z'') = Inr ''z''
   \<and> build_grid ''Cartesian'' 0 0 = Inr (np_meshgrid [Fin 0] [Fin 0])
   \<and> func example_runtime ''z'' (fst (np_meshgrid [Fin 0] [Fin 0])) (snd (np_meshgrid [Fin 0] [Fin 0]))
       = Inr (NdArray (np_full_like (fst (np_meshgrid [Fin 0] [Fin 0])) NaN))
   \<and> values_of (NdArray (np_full_like (fst (np_meshgrid [Fin 0] [Fin 0])) NaN)) = [NaN]
   \<and> generate_plot example_runtime ''z'' 0 0 ''viridis'' False ''Cartesian''
       = Inr (ErrorText failure_text)"
proof -
  let ?X = "fst (np_meshgrid [Fin 0] [Fin 0])" and ?Y = "snd (np_meshgrid [Fin 0] [Fin 0])"
  let ?V = "NdArray (np_full_like ?X NaN)"
  have c: "py_compile example_runtime (ti84_to_numpy ''z'') = Inr ''z''"
    by (simp add: ti84_plain example_runtime_def example_compile_def)
  have g: "build_grid ''Cartesian'' 0 0 = Inr (?X, ?Y)"
    by (simp add: cartesian_grid_origin)
  have f: "func example_runtime ''z'' ?X ?Y = Inr ?V"
    by (simp add: func_def example_runtime_def example_eval_def)
  have v: "values_of ?V = [NaN]"
    by (simp add: values_of_def flatten_def np_full_like_def np_meshgrid_def)
  have n: "?V \<noteq> PyObj" "list_all fl_isnan (values_of ?V)"
    by (simp_all add: v fl_isnan_def)
  from all_nan_field_fails [OF c g f n, of "''viridis''" False] c f v cartesian_grid_origin
  show ?thesis by simp
qed

theorem number_result_not_grid_shaped_witness:
  "py_compile example_runtime (ti84_to_numpy ''1'') = Inr ''1''
   \<and> build_grid ''Cartesian'' 0 0 = Inr (np_meshgrid [Fin 0] [Fin 0])
   \<and> py_eval example_runtime ''1'' (fst (np_meshgrid [Fin 0] [Fin 0])) (snd (np_meshgrid [Fin 0] [Fin 0]))
       = Inr (PyNum (Fin 1))
   \<and> func example_runtime ''1'' (fst (np_meshgrid [Fin 0] [Fin 0])) (snd (np_meshgrid [Fin 0] [Fin 0]))
       = Inr (PyNum (Fin 1))
   \<and> np_shape (PyNum (Fin 1)) = []
   \<and> [nrows (fst (np_meshgrid [Fin 0] [Fin 0])), ncols (fst (np_meshgrid [Fin 0] [Fin 0]))] = [1, 1]
   \<and> generate_plot example_runtime ''1'' 0 0 ''viridis'' False ''Cartesian''
       = Inr (ErrorText failure_text)"
proof -
  let ?X = "fst (np_meshgrid [Fin 0] [Fin 0])" and ?Y = "snd (np_meshgrid [Fin 0] [Fin 0])"
  have c: "py_compile example_runtime (ti84_to_numpy ''1'') = Inr ''1''"
    by (simp add: ti84_plain example_runtime_def example_compile_def)
  have g: "build_grid ''Cartesian'' 0 0 = Inr (?X, ?Y)"
    by (simp add: cartesian_grid_origin)
  have e: "py_eval example_runtime ''1'' ?X ?Y = Inr (PyNum (Fin 1))"
    by (simp add: example_runtime_def example_eval_def)
  have s: "np_shape (PyNum (Fin 1)) = []" "[nrows ?X, ncols ?X] = [1, 1]"
    by (simp_all add: np_shape_def np_meshgrid_def)
  from number_result_not_grid_shaped [OF c g e, of "''viridis''"] c e s cartesian_grid_origin
  show ?thesis by simp
qed

section \<open>Arrays, grids and the renderer: proofs\<close>

lemma arr_binop_same:
  "nrows b = nrows a \<Longrightarrow> ncols b = ncols a \<Longrightarrow> arr_binop f a b = Inr (arr_zip f a b)"
  by (simp add: arr_binop_def bc_dim_def bc_at_def arr_zip_def)

lemma arr_map_shape [simp]: "nrows (arr_map f a) = nrows a" "ncols (arr_map f a) = ncols a"
  "entry (arr_map f a) i j = f (entry a i j)"
  by (simp_all add: arr_map_def)

lemma arr_zip_shape [simp]: "nrows (arr_zip f a b) = nrows a" "ncols (arr_zip f a b) = ncols a"
  "entry (arr_zip f a b) i j = f (entry a i j) (entry b i j)"
  by (simp_all add: arr_zip_def)

lemma flatten_indices: "flatten a = map (\<lambda>(i, j). entry a i j) (indices (nrows a) (ncols a))"
  by (simp add: flatten_def indices_def map_concat comp_def)

lemma flatten_arr_map: "flatten (arr_map f a) = map f (flatten a)"
  by (simp add: flatten_indices comp_def case_prod_unfold)

lemma in_indices: "(i, j) \<in> set (indices m n) \<longleftrightarrow> i < m \<and> j < n"
  by (force simp: indices_def)

lemma length_of_cases:
  "length_of (Fin r) = Fin (sqrt (1 + r * r))"
  "length_of NaN = NaN" "length_of PInf = PInf" "length_of NInf = PInf"
  by (simp_all add: length_of_def signed_inf_def add_nonneg_nonneg)

lemma length_of_ge_one: "1 \<le> sqrt (1 + r * r)" for r :: real
  by simp

lemma length_of_nonzero: "length_of v \<noteq> Fin 0"
proof (cases v)
  case (Fin r)
  have "sqrt (1 + r * r) \<noteq> 0" using length_of_ge_one [of r] by linarith
  with Fin show ?thesis by (simp add: length_of_cases)
qed (simp_all add: length_of_cases)

lemma segment_length_array:
  "segment_length (NdArray (arr_map (\<lambda>v. Fin 1) A)) (NdArray A) = Inr (NdArray (arr_map length_of A))"
  by (simp add: segment_length_def and_then_def arr_binop_same arr_zip_def arr_map_def length_of_def)

lemma segment_length_number:
  "segment_length (NpNum (Fin 1)) (PyNum k) = Inr (NpNum (length_of k))"
  "segment_length (NpNum (Fin 1)) (NpNum k) = Inr (NpNum (length_of k))"
  by (simp_all add: segment_length_def and_then_def length_of_def)

text \<open>
  C10: with the x-component fixed to 1, the length computed at line 74 is never 0: it is a
  number of at least 1 where the slope is finite and NaN where the slope is NaN, so the
  divisions of lines 75 and 76 never divide by zero.
\<close>

theorem segment_length_never_zero:
  assumes "np_unop (\<lambda>v. Fin 1) V = Inr U"
  shows "\<exists>L. segment_length U V = Inr L \<and> np_shape L = np_shape V
    \<and> Fin 0 \<notin> set (values_of L)
    \<and> list_all2 (\<lambda>v l. (\<forall>r. v = Fin r \<longrightarrow> (\<exists>s. l = Fin s \<and> 1 \<le> s)) \<and> (v = NaN \<longrightarrow> l = NaN))
         (values_of V) (values_of L)"
proof (cases V)
  case PyObj
  with assms show ?thesis by simp
next
  case (PyNum k)
  with assms have U: "U = NpNum (Fin 1)" by auto
  have "(\<forall>r. k = Fin r \<longrightarrow> (\<exists>s. length_of k = Fin s \<and> 1 \<le> s)) \<and> (k = NaN \<longrightarrow> length_of k = NaN)"
    by (auto simp: length_of_cases)
  with PyNum U length_of_nonzero [of k] show ?thesis
    by (auto simp: segment_length_number np_shape_def values_of_def)
next
  case (NpNum k)
  with assms have U: "U = NpNum (Fin 1)" by auto
  have "(\<forall>r. k = Fin r \<longrightarrow> (\<exists>s. length_of k = Fin s \<and> 1 \<le> s)) \<and> (k = NaN \<longrightarrow> length_of k = NaN)"
    by (auto simp: length_of_cases)
  with NpNum U length_of_nonzero [of k] show ?thesis
    by (auto simp: segment_length_number np_shape_def values_of_def)
next
  case (NdArray A)
  with assms have U: "U = NdArray (arr_map (\<lambda>v. Fin 1) A)" by auto
  have p: "(\<forall>r. v = Fin r \<longrightarrow> (\<exists>s. length_of v = Fin s \<and> 1 \<le> s)) \<and> (v = NaN \<longrightarrow> length_of v = NaN)" for v
    by (auto simp: length_of_cases)
  have "list_all2 (\<lambda>v l. (\<forall>r. v = Fin r \<longrightarrow> (\<exists>s. l = Fin s \<and> 1 \<le> s)) \<and> (v = NaN \<longrightarrow> l = NaN))
         (flatten A) (map length_of (flatten A))"
    unfolding list_all2_map2 using p by (auto simp: list_all2_same)
  moreover have "Fin 0 \<notin> set (map length_of (flatten A))"
    using length_of_nonzero by (metis (no_types) imageE list.set_map)
  ultimately show ?thesis using NdArray U
    by (simp add: segment_length_array np_shape_def values_of_def flatten_arr_map)
qed


theorem segment_length_never_zero_witness:
  "np_unop (\<lambda>v. Fin 1) (NdArray (arr_map fl_sqrt example_grid))
     = Inr (NdArray (arr_map (\<lambda>v. Fin 1) (arr_map fl_sqrt example_grid)))
   \<and> values_of (NdArray (arr_map fl_sqrt example_grid)) = [NaN, Fin 2]
   \<and> (\<exists>L. segment_length (NdArray (arr_map (\<lambda>v. Fin 1) (arr_map fl_sqrt example_grid)))
            (NdArray (arr_map fl_sqrt example_grid)) = Inr L
        \<and> np_shape L = [1, 2] \<and> Fin 0 \<notin> set (values_of L))"
proof -
  let ?V = "NdArray (arr_map fl_sqrt example_grid)"
  let ?U = "NdArray (arr_map (\<lambda>v. Fin 1) (arr_map fl_sqrt example_grid))"
  have u: "np_unop (\<lambda>v. Fin 1) ?V = Inr ?U" by simp
  have "[0..<2] = [0, 1]" by (simp add: upt_rec)
  then have v: "values_of ?V = [NaN, Fin 2]"
    by (simp add: values_of_def flatten_def example_grid_def arr_map_def)
  have s: "np_shape ?V = [1, 2]" by (simp add: np_shape_def example_grid_def)
  from segment_length_never_zero [OF u] u v s show ?thesis by auto
qed

lemma arr_map_id: "arr_map (\<lambda>v. v) A = A"
  by (simp add: arr_map_def)

lemma normalized_array:
  "normalized (NdArray (arr_map h A)) (NdArray (arr_map length_of A))
     = Inr (NdArray (arr_map (\<lambda>v. norm_of (h v) v) A))"
  by (simp add: normalized_def and_then_def arr_binop_same arr_zip_def arr_map_def norm_of_def)

lemma half_step_array:
  "nrows A = nrows P \<Longrightarrow> ncols A = ncols P \<Longrightarrow>
   half_step op P (NdArray (arr_map w A))
     = Inr (NdArray (arr_zip (\<lambda>p v. op p (fl_div (w v) (Fin 2))) P A))"
  by (simp add: half_step_def and_then_def arr_binop_same arr_zip_def arr_map_def)

lemma draw_arrays:
  "draw rt False X Y U (NdArray A) (NdArray Xs) (NdArray Xe) (NdArray Ys) (NdArray Ye)
     = (if list_all (\<lambda>s. alpha_ok (seg_alpha s))
             (make_segments (flatten Xs) (flatten Xe) (flatten Ys) (flatten Ye) (flatten A))
        then Inr (Segments (make_segments (flatten Xs) (flatten Xe) (flatten Ys) (flatten Ye) (flatten A)))
        else Inl ValueError)"
  by (simp add: draw_def and_then_def Let_def)

lemma make_segments_map:
  "make_segments (map a ks) (map b ks) (map c ks) (map d ks) (map e ks)
     = map (\<lambda>k. \<lparr>seg_xs = a k, seg_xe = b k, seg_ys = c k, seg_ye = d k, seg_value = e k,
                   seg_alpha = segment_alpha (c k) (d k)\<rparr>) ks"
  by (induction ks) (simp_all add: make_segments_def)

lemma length_indices: "length (indices m n) = m * n"
  by (simp add: indices_def length_concat comp_def sum_list_triv)

lemma length_flatten: "length (flatten a) = nrows a * ncols a"
  by (simp add: flatten_indices length_indices)

lemma arr_min_nonempty:
  "flatten a \<noteq> [] \<Longrightarrow> arr_min a = Inr (foldl fl_minimum (hd (flatten a)) (tl (flatten a)))"
  "flatten a \<noteq> [] \<Longrightarrow> arr_max a = Inr (foldl fl_maximum (hd (flatten a)) (tl (flatten a)))"
  by (simp_all add: arr_min_def arr_max_def split: list.splits)


lemma fl_isfinite_iff: "fl_isfinite v \<longleftrightarrow> (\<exists>r. v = Fin r)"
  by (cases v) (simp_all add: fl_isfinite_def)

lemma finite_arange: "\<forall>v\<in>set (np_arange a b c). fl_isfinite v"
  by (simp add: np_arange_def fl_isfinite_def)

lemma finite_linspace:
  assumes "np_linspace (Fin a) (Fin b) n = Inr xs"
  shows "\<forall>v\<in>set xs. fl_isfinite v"
proof -
  define m where "m = nat n"
  define step where "step = (if m = 1 then fl_sub (Fin b) (Fin a)
     else fl_div (fl_sub (Fin b) (Fin a)) (Fin (real (m - 1))))"
  from assms have xs: "xs = map (\<lambda>i. if 1 < m \<and> i = m - 1 then Fin b
      else fl_add (fl_mul (Fin (real i)) step) (Fin a)) [0..<m]"
    by (auto simp: np_linspace_def Let_def m_def step_def split: if_splits)
  have "\<exists>s. step = Fin s" if "0 < m"
  proof (cases "m = 1")
    case True
    then show ?thesis by (simp add: step_def fl_sub_def)
  next
    case False
    with that have "real (m - 1) \<noteq> 0" by simp
    with False show ?thesis by (simp add: step_def fl_sub_def)
  qed
  then have "fl_isfinite (fl_add (fl_mul (Fin (real i)) step) (Fin a))" if "i < m" for i
    using that by (cases "0 < m") (auto simp: fl_isfinite_iff)
  with xs show ?thesis by (auto simp: fl_isfinite_iff)
qed

lemma finite_logspace:
  assumes "np_logspace (Fin (- 1)) (np_log10 xm) (py_int (xm / (5 / 100))) = Inr xs"
  shows "\<forall>v\<in>set xs. fl_isfinite v"
proof (cases "0 < xm")
  case True
  from assms obtain ys where ys: "np_linspace (Fin (- 1)) (np_log10 xm) (py_int (xm / (5 / 100))) = Inr ys"
    and xs: "xs = map fl_pow10 ys"
    by (cases "np_linspace (Fin (- 1)) (np_log10 xm) (py_int (xm / (5 / 100)))")
       (auto simp: np_logspace_def)
  from True ys have "\<forall>v\<in>set ys. fl_isfinite v"
    by (intro finite_linspace [of "- 1" "log 10 xm"]) (simp add: np_log10_def)
  then have "\<forall>v\<in>set ys. fl_isfinite (fl_pow10 v)"
    by (auto simp: fl_isfinite_iff)
  with xs show ?thesis by simp
next
  case False
  then have "py_int (xm / (5 / 100)) \<le> 0"
    by (auto simp: py_int_def ceiling_le_zero divide_nonpos_pos)
  with assms have "xs = []"
    by (auto simp: np_logspace_def np_linspace_def Let_def split: if_splits)
  then show ?thesis by simp
qed

lemma meshgrid_fst [simp]:
  "nrows (fst (np_meshgrid xs ys)) = length ys" "ncols (fst (np_meshgrid xs ys)) = length xs"
  "entry (fst (np_meshgrid xs ys)) i j = xs ! j"
  by (simp_all add: np_meshgrid_def)

lemma meshgrid_snd [simp]:
  "nrows (snd (np_meshgrid xs ys)) = length ys" "ncols (snd (np_meshgrid xs ys)) = length xs"
  "entry (snd (np_meshgrid xs ys)) i j = ys ! i"
  by (simp_all add: np_meshgrid_def)

lemma polar_to_cartesian_meshgrid:
  "polar_to_cartesian (np_meshgrid r theta)
     = Inr (arr_zip fl_mul (fst (np_meshgrid r theta)) (arr_map fl_cos (snd (np_meshgrid r theta))),
            arr_zip fl_mul (fst (np_meshgrid r theta)) (arr_map fl_sin (snd (np_meshgrid r theta))))"
  by (simp add: polar_to_cartesian_def case_prod_unfold arr_binop_same and_then_def)

text \<open>Every grid comes from two finite coordinate lists, directly or through polar coordinates.\<close>

lemma build_grid_cases:
  assumes "build_grid cs xm ym = Inr (X, Y)"
  obtains xs ys where "\<forall>v\<in>set xs. fl_isfinite v" "\<forall>v\<in>set ys. fl_isfinite v"
    and "np_meshgrid xs ys = (X, Y) \<or> polar_to_cartesian (np_meshgrid xs ys) = Inr (X, Y)"
proof -
  from assms consider
      (cart) "np_meshgrid (np_arange (- xm) (xm + 5 / 100) (5 / 100))
        (np_arange (- ym) (ym + 5 / 100) (5 / 100)) = (X, Y)"
    | (polar) "polar_to_cartesian (np_meshgrid (np_arange (1 / 100) xm (5 / 100))
        (np_arange 0 (2 * pi) (5 / 100))) = Inr (X, Y)"
    | (logpolar) "and_then (np_logspace (Fin (- 1)) (np_log10 xm) (py_int (xm / (5 / 100)))) (\<lambda>r.
        and_then (np_linspace (Fin 0) (Fin (2 * pi)) (py_int (2 * pi / (5 / 100)))) (\<lambda>theta.
        polar_to_cartesian (np_meshgrid r theta))) = Inr (X, Y)"
    | (loglog) "and_then (np_logspace (Fin (- 1)) (np_log10 xm) (py_int (xm / (5 / 100)))) (\<lambda>x_vals.
        and_then (np_logspace (Fin (- 1)) (np_log10 ym) (py_int (ym / (5 / 100)))) (\<lambda>y_vals.
        Inr (np_meshgrid x_vals y_vals))) = Inr (X, Y)"
    | (hex) "np_meshgrid (np_arange (- xm) (xm + 5 / 100) (2 / 10))
        (np_arange (- ym) (ym + 5 / 100) (2 / 10 * sqrt 3)) = (X, Y)"
    unfolding build_grid_def Let_def by (simp split: if_splits)
  then show thesis
  proof cases
    case cart
    then show ?thesis using finite_arange that by blast
  next
    case polar
    then show ?thesis using finite_arange that by blast
  next
    case logpolar
    then obtain r theta where r: "np_logspace (Fin (- 1)) (np_log10 xm) (py_int (xm / (5 / 100))) = Inr r"
      and t: "np_linspace (Fin 0) (Fin (2 * pi)) (py_int (2 * pi / (5 / 100))) = Inr theta"
      and p: "polar_to_cartesian (np_meshgrid r theta) = Inr (X, Y)"
      by (auto simp: and_then_def split: sum.splits)
    from finite_logspace [OF r] finite_linspace [OF t] p that show ?thesis by blast
  next
    case loglog
    then obtain xs ys where x: "np_logspace (Fin (- 1)) (np_log10 xm) (py_int (xm / (5 / 100))) = Inr xs"
      and y: "np_logspace (Fin (- 1)) (np_log10 ym) (py_int (ym / (5 / 100))) = Inr ys"
      and p: "np_meshgrid xs ys = (X, Y)"
      by (auto simp: and_then_def split: sum.splits)
    from finite_logspace [OF x] finite_logspace [OF y] p that show ?thesis by blast
  next
    case hex
    then show ?thesis using finite_arange that by blast
  qed
qed

lemma build_grid_wf:
  assumes "build_grid cs xm ym = Inr (X, Y)"
  shows "nrows Y = nrows X \<and> ncols Y = ncols X
    \<and> (\<forall>i<nrows X. \<forall>j<ncols X. fl_isfinite (entry X i j) \<and> fl_isfinite (entry Y i j))"
proof -
  from assms obtain xs ys where fx: "\<forall>v\<in>set xs. fl_isfinite v" and fy: "\<forall>v\<in>set ys. fl_isfinite v"
    and c: "np_meshgrid xs ys = (X, Y) \<or> polar_to_cartesian (np_meshgrid xs ys) = Inr (X, Y)"
    by (rule build_grid_cases)
  have fin: "fl_isfinite (xs ! j) \<and> fl_isfinite (ys ! i)" if "i < length ys" "j < length xs" for i j
    using fx fy that by simp
  from c show ?thesis
  proof
    assume "np_meshgrid xs ys = (X, Y)"
    then have "X = fst (np_meshgrid xs ys)" "Y = snd (np_meshgrid xs ys)" by simp_all
    with fin show ?thesis by simp
  next
    assume "polar_to_cartesian (np_meshgrid xs ys) = Inr (X, Y)"
    then have X: "X = arr_zip fl_mul (fst (np_meshgrid xs ys)) (arr_map fl_cos (snd (np_meshgrid xs ys)))"
      and Y: "Y = arr_zip fl_mul (fst (np_meshgrid xs ys)) (arr_map fl_sin (snd (np_meshgrid xs ys)))"
      by (simp_all add: polar_to_cartesian_meshgrid)
    have "fl_isfinite (fl_mul (xs ! j) (fl_cos (ys ! i))) \<and> fl_isfinite (fl_mul (xs ! j) (fl_sin (ys ! i)))"
      if "i < length ys" "j < length xs" for i j
      using fin [OF that] by (auto simp: fl_isfinite_def split: fl.splits)
    with X Y show ?thesis by simp
  qed
qed


lemma normalized_self:
  "normalized (NdArray A) (NdArray (arr_map length_of A))
     = Inr (NdArray (arr_map (\<lambda>v. norm_of v v) A))"
  using normalized_array [of "\<lambda>v. v" A] by (simp add: arr_map_id)

lemma plot_body_array:
  assumes grid: "build_grid cs xm ym = Inr (X, Y)"
    and V: "slope_func X Y = Inr (NdArray A)"
    and sh: "nrows A = nrows X" "ncols A = ncols X"
  shows "plot_body rt slope_func raw xm ym cm False cs =
    (if list_all fl_isnan (flatten A) then Inl ValueError
     else if cm \<notin> set (colormaps rt) then Inl KeyError
     else if \<not> list_all (\<lambda>s. alpha_ok (seg_alpha s)) (field_segments X Y A) then Inl ValueError
     else Inr
    \<lparr>xlim = (foldl fl_minimum (hd (flatten X)) (tl (flatten X)),
             foldl fl_maximum (hd (flatten X)) (tl (flatten X))),
     ylim = (foldl fl_minimum (hd (flatten Y)) (tl (flatten Y)),
             foldl fl_maximum (hd (flatten Y)) (tl (flatten Y))),
     title = ''Slope Field for dy/dx = '' @ raw, cmap = cm,
     vmin = foldl fl_minimum (hd (flatten A)) (tl (flatten A)),
     vmax = foldl fl_maximum (hd (flatten A)) (tl (flatten A)),
     drawn = Segments (field_segments X Y A)\<rparr>)"
proof (cases "list_all fl_isnan (flatten A)")
  case True
  then show ?thesis
    by (simp add: plot_body_def grid V and_then_simps)
next
  case nn: False
  from build_grid_wf [OF grid] have shY: "nrows A = nrows Y" "ncols A = ncols Y"
    using sh by simp_all
  from nn have neA: "flatten A \<noteq> []" by auto
  then have "length (flatten A) \<noteq> 0" by simp
  then have "length (flatten X) \<noteq> 0" "length (flatten Y) \<noteq> 0"
    using sh shY unfolding length_flatten by simp_all
  then have neX: "flatten X \<noteq> []" and neY: "flatten Y \<noteq> []" by simp_all
  have 1: "np_isnan_all (NdArray A) = Inr False" using nn by simp
  have 2: "np_unop (\<lambda>v. Fin 1) (NdArray A) = Inr (NdArray (arr_map (\<lambda>v. Fin 1) A))" by simp
  note 3 = segment_length_array [of A]
  note 4 = normalized_array [of "\<lambda>v. Fin 1" A]
  note 5 = normalized_self [of A]
  note 6 = half_step_array [OF sh, of fl_sub "\<lambda>v. norm_of (Fin 1) v"]
    half_step_array [OF sh, of fl_add "\<lambda>v. norm_of (Fin 1) v"]
    half_step_array [OF shY, of fl_sub "\<lambda>v. norm_of v v"]
    half_step_array [OF shY, of fl_add "\<lambda>v. norm_of v v"]
  note 7 = arr_min_nonempty [OF neX] arr_min_nonempty [OF neY] arr_min_nonempty [OF neA]
  show ?thesis
    unfolding plot_body_def field_segments_def
    apply (simp only: grid V and_then_simps prod.case 1 2 3 4 5 6 7 if_False nn
        np_min.simps np_max.simps draw_arrays)
    apply (simp add: and_then_simps)
    done
qed

lemma norm_of_finite: "\<exists>w. norm_of (Fin r) (Fin r) = Fin w"
proof -
  have "sqrt (1 + r * r) \<noteq> 0" using length_of_ge_one [of r] by linarith
  then show ?thesis by (simp add: norm_of_def length_of_cases)
qed

lemma np_clip_finite:
  "np_clip (Fin t) (Fin lo) (Fin hi) = Fin (min (max t lo) hi)"
  by (simp add: np_clip_def fl_minimum_def fl_maximum_def fl_isnan_def max_def min_def)

lemma segment_alpha_range:
  "\<exists>a. segment_alpha (fl_sub (Fin y) (fl_div (norm_of (Fin r) (Fin r)) (Fin 2)))
          (fl_add (Fin y) (fl_div (norm_of (Fin r) (Fin r)) (Fin 2))) = Fin a
       \<and> 2 / 10 \<le> a \<and> a \<le> 1"
proof -
  from norm_of_finite obtain w where w: "norm_of (Fin r) (Fin r) = Fin w" ..
  show ?thesis
    by (simp add: w segment_alpha_def fl_sub_def np_clip_finite)
qed

lemma alpha_ok_finite:
  assumes "alpha_ok (segment_alpha (fl_sub (Fin y) (fl_div (norm_of v v) (Fin 2)))
      (fl_add (Fin y) (fl_div (norm_of v v) (Fin 2))))"
  shows "fl_isfinite v"
proof (cases v)
  case (Fin r)
  then show ?thesis by (simp add: fl_isfinite_def)
next
  case PInf
  then have "norm_of v v = NaN" by (simp add: norm_of_def length_of_cases signed_inf_def)
  with assms show ?thesis
    by (simp add: segment_alpha_def fl_sub_def np_clip_def fl_minimum_def fl_maximum_def
        fl_isnan_def alpha_ok_def)
next
  case NInf
  then have "norm_of v v = NaN" by (simp add: norm_of_def length_of_cases signed_inf_def)
  with assms show ?thesis
    by (simp add: segment_alpha_def fl_sub_def np_clip_def fl_minimum_def fl_maximum_def
        fl_isnan_def alpha_ok_def)
next
  case NaN
  then have "norm_of v v = NaN" by (simp add: norm_of_def length_of_cases)
  with assms show ?thesis
    by (simp add: segment_alpha_def fl_sub_def np_clip_def fl_minimum_def fl_maximum_def
        fl_isnan_def alpha_ok_def)
qed

lemma segments_of_arrays:
  assumes sh: "nrows A = nrows X" "ncols A = ncols X" "nrows Y = nrows X" "ncols Y = ncols X"
  shows "make_segments (flatten (arr_zip f1 X A)) (flatten (arr_zip f2 X A))
      (flatten (arr_zip f3 Y A)) (flatten (arr_zip f4 Y A)) (flatten A)
    = map (\<lambda>k. \<lparr>seg_xs = f1 (entry X (fst k) (snd k)) (entry A (fst k) (snd k)),
                  seg_xe = f2 (entry X (fst k) (snd k)) (entry A (fst k) (snd k)),
                  seg_ys = f3 (entry Y (fst k) (snd k)) (entry A (fst k) (snd k)),
                  seg_ye = f4 (entry Y (fst k) (snd k)) (entry A (fst k) (snd k)),
                  seg_value = entry A (fst k) (snd k),
                  seg_alpha = segment_alpha (f3 (entry Y (fst k) (snd k)) (entry A (fst k) (snd k)))
                     (f4 (entry Y (fst k) (snd k)) (entry A (fst k) (snd k)))\<rparr>)
        (indices (nrows X) (ncols X))"
  unfolding flatten_indices arr_zip_shape sh case_prod_unfold
  by (rule make_segments_map)

lemma fl_le_refl: "\<not> fl_isnan a \<Longrightarrow> fl_le a a"
  by (cases a) (simp_all add: fl_isnan_def)

lemma fl_le_total: "\<not> fl_isnan a \<Longrightarrow> \<not> fl_isnan b \<Longrightarrow> fl_le a b \<or> fl_le b a"
  by (cases a; cases b) (auto simp: fl_isnan_def)

lemma fl_le_trans: "fl_le a b \<Longrightarrow> fl_le b c \<Longrightarrow> fl_le a c"
  by (cases a; cases b; cases c) simp_all

lemma fl_minimum_cases:
  assumes "\<not> fl_isnan a" "\<not> fl_isnan b"
  shows "(fl_minimum a b = a \<or> fl_minimum a b = b)
    \<and> fl_le (fl_minimum a b) a \<and> fl_le (fl_minimum a b) b"
  using assms fl_le_total [OF assms] fl_le_refl
  by (auto simp: fl_minimum_def)

lemma fl_maximum_cases:
  assumes "\<not> fl_isnan a" "\<not> fl_isnan b"
  shows "(fl_maximum a b = a \<or> fl_maximum a b = b)
    \<and> fl_le a (fl_maximum a b) \<and> fl_le b (fl_maximum a b)"
  using assms fl_le_total [OF assms] fl_le_refl
  by (auto simp: fl_maximum_def)

lemma foldl_minimum:
  "\<forall>x\<in>set (v # vs). \<not> fl_isnan x \<Longrightarrow>
   foldl fl_minimum v vs \<in> set (v # vs) \<and> (\<forall>x\<in>set (v # vs). fl_le (foldl fl_minimum v vs) x)"
proof (induction vs arbitrary: v)
  case Nil
  then show ?case by (simp add: fl_le_refl)
next
  case (Cons a vs)
  let ?m = "fl_minimum v a"
  from Cons.prems have nan: "\<not> fl_isnan v" "\<not> fl_isnan a" by simp_all
  note m = fl_minimum_cases [OF nan]
  from m nan have "\<not> fl_isnan ?m" by auto
  with Cons.prems have "\<forall>x\<in>set (?m # vs). \<not> fl_isnan x" by simp
  from Cons.IH [OF this] have r: "foldl fl_minimum ?m vs \<in> set (?m # vs)"
    and le: "\<forall>x\<in>set (?m # vs). fl_le (foldl fl_minimum ?m vs) x" by simp_all
  from le have "fl_le (foldl fl_minimum ?m vs) ?m" by simp
  with m have "fl_le (foldl fl_minimum ?m vs) v" "fl_le (foldl fl_minimum ?m vs) a"
    by (blast intro: fl_le_trans)+
  with r le m show ?case by auto
qed

lemma foldl_maximum:
  "\<forall>x\<in>set (v # vs). \<not> fl_isnan x \<Longrightarrow>
   foldl fl_maximum v vs \<in> set (v # vs) \<and> (\<forall>x\<in>set (v # vs). fl_le x (foldl fl_maximum v vs))"
proof (induction vs arbitrary: v)
  case Nil
  then show ?case by (simp add: fl_le_refl)
next
  case (Cons a vs)
  let ?m = "fl_maximum v a"
  from Cons.prems have nan: "\<not> fl_isnan v" "\<not> fl_isnan a" by simp_all
  note m = fl_maximum_cases [OF nan]
  from m nan have "\<not> fl_isnan ?m" by auto
  with Cons.prems have "\<forall>x\<in>set (?m # vs). \<not> fl_isnan x" by simp
  from Cons.IH [OF this] have r: "foldl fl_maximum ?m vs \<in> set (?m # vs)"
    and le: "\<forall>x\<in>set (?m # vs). fl_le x (foldl fl_maximum ?m vs)" by simp_all
  from le have "fl_le ?m (foldl fl_maximum ?m vs)" by simp
  with m have "fl_le v (foldl fl_maximum ?m vs)" "fl_le a (foldl fl_maximum ?m vs)"
    by (blast intro: fl_le_trans)+
  with r le m show ?case by auto
qed

section \<open>Opacity and colour scale\<close>


lemma ti84_letters: "ti84_to_numpy ''x'' = ''x''" "ti84_to_numpy ''sqrt(x)'' = ''np.sqrt(x)''"
  by (simp_all add: ti84_to_numpy_def str_replace_def)

text \<open>
  Conversely, a field of the shape of the grid with at least one entry, all of them
  finite, is drawn: every opacity is one that \<^verbatim>\<open>ax.plot\<close> accepts.
\<close>

lemma finite_field_plots:
  assumes c: "py_compile rt (ti84_to_numpy expr_raw) = Inr compiled"
    and grid: "build_grid coord_system x_max y_max = Inr (X, Y)"
    and V: "func rt compiled X Y = Inr (NdArray A)"
    and sh: "nrows A = nrows X" "ncols A = ncols X"
    and ne: "flatten A \<noteq> []"
    and finite: "\<forall>v\<in>set (flatten A). fl_isfinite v"
    and cm: "cmap_name \<in> set (colormaps rt)"
  shows "\<exists>p. generate_plot rt expr_raw x_max y_max cmap_name False coord_system = Inr (Plot p)"
proof -
  from build_grid_wf [OF grid] have shY: "nrows Y = nrows X" "ncols Y = ncols X"
    and fin: "\<And>i j. i < nrows X \<Longrightarrow> j < ncols X \<Longrightarrow> fl_isfinite (entry Y i j)"
    by simp_all
  note segs = segments_of_arrays [OF sh shY]
  have "alpha_ok (seg_alpha s)" if s: "s \<in> set (field_segments X Y A)" for s
  proof -
    from s obtain i j where ij: "(i, j) \<in> set (indices (nrows X) (ncols X))"
      and sa: "seg_alpha s = segment_alpha
          (fl_sub (entry Y i j) (fl_div (norm_of (entry A i j) (entry A i j)) (Fin 2)))
          (fl_add (entry Y i j) (fl_div (norm_of (entry A i j) (entry A i j)) (Fin 2)))"
      unfolding field_segments_def segs by auto
    from ij have lt: "i < nrows X" "j < ncols X" by (simp_all add: in_indices)
    from fin [OF this] obtain y where y: "entry Y i j = Fin y" by (auto simp: fl_isfinite_iff)
    from ij have "entry A i j \<in> set (flatten A)"
      unfolding flatten_indices sh by force
    with finite obtain r where r: "entry A i j = Fin r" by (auto simp: fl_isfinite_iff)
    from segment_alpha_range [of y r] obtain a where "seg_alpha s = Fin a" "2 / 10 \<le> a" "a \<le> 1"
      by (auto simp: sa y r)
    then show ?thesis by (simp add: alpha_ok_def)
  qed
  then have ok: "list_all (\<lambda>s. alpha_ok (seg_alpha s)) (field_segments X Y A)"
    by (simp add: list_all_iff)
  from ne finite have nn: "\<not> list_all fl_isnan (flatten A)"
    by (cases "flatten A") (auto simp: fl_isfinite_iff fl_isnan_def)
  from plot_body_array [where slope_func = "func rt compiled" and rt = rt and raw = expr_raw
      and cm = cmap_name, OF grid V sh] c nn cm ok
  show ?thesis
    by (simp add: generate_plot_def safe_slope_func_def)
qed


section \<open>The Polar grid\<close>

lemma polar_grid:
  "build_grid ''Polar'' x_max y_max
     = polar_to_cartesian (np_meshgrid (np_arange (1 / 100) x_max (5 / 100)) (np_arange 0 (2 * pi) (5 / 100)))"
  by (simp add: build_grid_def Let_def)

lemma less_nat_ceiling: "j < nat \<lceil>z\<rceil> \<Longrightarrow> real j < z" for z :: real
  by (metis less_ceiling_iff of_int_of_nat_eq zless_nat_eq_int_zless)

lemma arange_nth:
  "j < length (np_arange a b c) \<Longrightarrow> np_arange a b c ! j = Fin (a + real j * c)"
  by (simp add: np_arange_def)

lemma arange_length: "length (np_arange a b c) = nat \<lceil>(b - a) / c\<rceil>"
  by (simp add: np_arange_def)

lemma radius_polar:
  assumes "0 \<le> r"
  shows "radius (fl_mul (Fin r) (fl_cos (Fin t))) (fl_mul (Fin r) (fl_sin (Fin t))) = Fin r"
proof -
  have "r * cos t * (r * cos t) + r * sin t * (r * sin t) = r * r * ((cos t)\<^sup>2 + (sin t)\<^sup>2)"
    unfolding power2_eq_square by (simp only: distrib_left mult_ac)
  also have "\<dots> = r * r" by simp
  finally have "sqrt (r * cos t * (r * cos t) + r * sin t * (r * sin t)) = r"
    using assms by simp
  moreover have "0 \<le> r * cos t * (r * cos t) + r * sin t * (r * sin t)"
    by (simp add: add_nonneg_nonneg)
  ultimately show ?thesis by (simp add: radius_def)
qed

lemma polar_radius_value:
  assumes grid: "build_grid ''Polar'' x_max y_max = Inr (X, Y)"
    and i: "i < nrows X" and j: "j < ncols X"
  shows "radius (entry X i j) (entry Y i j) = Fin (1 / 100 + real j * (5 / 100))"
    and "real j < (x_max - 1 / 100) / (5 / 100)"
proof -
  let ?r = "np_arange (1 / 100) x_max (5 / 100)" and ?t = "np_arange 0 (2 * pi) (5 / 100)"
  from grid have X: "X = arr_zip fl_mul (fst (np_meshgrid ?r ?t)) (arr_map fl_cos (snd (np_meshgrid ?r ?t)))"
    and Y: "Y = arr_zip fl_mul (fst (np_meshgrid ?r ?t)) (arr_map fl_sin (snd (np_meshgrid ?r ?t)))"
    by (simp_all add: polar_grid polar_to_cartesian_meshgrid)
  from i j X have i': "i < length ?t" and j': "j < length ?r" by simp_all
  from j' show "real j < (x_max - 1 / 100) / (5 / 100)"
    unfolding arange_length by (rule less_nat_ceiling)
  have lo: "0 \<le> 1 / 100 + real j * (5 / 100)" by simp
  show "radius (entry X i j) (entry Y i j) = Fin (1 / 100 + real j * (5 / 100))"
    unfolding X Y using lo
    by (simp only: arr_zip_shape arr_map_shape meshgrid_fst meshgrid_snd
        arange_nth [OF i'] arange_nth [OF j'] radius_polar)
qed

lemma polar_samples:
  assumes grid: "build_grid ''Polar'' x_max y_max = Inr (X, Y)"
    and i: "i < nrows X" and j: "j < ncols X"
  shows "nrows X = length (np_arange 0 (2 * pi) (5 / 100))"
    and "ncols X = length (np_arange (1 / 100) x_max (5 / 100))"
    and "np_arange (1 / 100) x_max (5 / 100) ! j = Fin (1 / 100 + real j * (5 / 100))"
    and "np_arange 0 (2 * pi) (5 / 100) ! i = Fin (0 + real i * (5 / 100))"
    and "entry X i j = fl_mul (np_arange (1 / 100) x_max (5 / 100) ! j)
           (fl_cos (np_arange 0 (2 * pi) (5 / 100) ! i))"
    and "entry Y i j = fl_mul (np_arange (1 / 100) x_max (5 / 100) ! j)
           (fl_sin (np_arange 0 (2 * pi) (5 / 100) ! i))"
proof -
  let ?r = "np_arange (1 / 100) x_max (5 / 100)" and ?t = "np_arange 0 (2 * pi) (5 / 100)"
  from grid have X: "X = arr_zip fl_mul (fst (np_meshgrid ?r ?t)) (arr_map fl_cos (snd (np_meshgrid ?r ?t)))"
    and Y: "Y = arr_zip fl_mul (fst (np_meshgrid ?r ?t)) (arr_map fl_sin (snd (np_meshgrid ?r ?t)))"
    by (simp_all add: polar_grid polar_to_cartesian_meshgrid)
  from X show "nrows X = length ?t" "ncols X = length ?r" by simp_all
  with i j have i': "i < length ?t" and j': "j < length ?r" by simp_all
  from arange_nth [OF j'] show "?r ! j = Fin (1 / 100 + real j * (5 / 100))" .
  from arange_nth [OF i'] show "?t ! i = Fin (0 + real i * (5 / 100))" .
  from X show "entry X i j = fl_mul (?r ! j) (fl_cos (?t ! i))" by simp
  from Y show "entry Y i j = fl_mul (?r ! j) (fl_sin (?t ! i))" by simp
qed


lemma polar_grid_five:
  "build_grid ''Polar'' 5 5 = Inr (projr (build_grid ''Polar'' 5 5))"
  "1 < ncols (fst (projr (build_grid ''Polar'' 5 5)))"
  "0 < nrows (fst (projr (build_grid ''Polar'' 5 5)))"
proof -
  let ?r = "np_arange (1 / 100) 5 (5 / 100)" and ?t = "np_arange 0 (2 * pi) (5 / 100)"
  have g: "build_grid ''Polar'' 5 5
      = Inr (arr_zip fl_mul (fst (np_meshgrid ?r ?t)) (arr_map fl_cos (snd (np_meshgrid ?r ?t))),
             arr_zip fl_mul (fst (np_meshgrid ?r ?t)) (arr_map fl_sin (snd (np_meshgrid ?r ?t))))"
    by (simp only: polar_grid polar_to_cartesian_meshgrid)
  then show "build_grid ''Polar'' 5 5 = Inr (projr (build_grid ''Polar'' 5 5))" by simp
  have "(5 - 1 / 100) / (5 / 100) = (499 / 5 :: real)" by simp
  moreover have "\<lceil>499 / 5 :: real\<rceil> = 100" by (simp add: ceiling_eq_iff)
  ultimately have "length ?r = 100" unfolding arange_length by simp
  with g show "1 < ncols (fst (projr (build_grid ''Polar'' 5 5)))" by simp
  have "0 < (2 * pi - 0) / (5 / 100)" by simp
  then have "0 < \<lceil>(2 * pi - 0) / (5 / 100)\<rceil>" by (simp only: less_ceiling_iff of_int_0)
  then have "0 < length ?t" unfolding arange_length by simp
  with g show "0 < nrows (fst (projr (build_grid ''Polar'' 5 5)))" by simp
qed




end
